theory Spec2Isabelle
  imports Complex_Main "HOL-Library.AList"
begin

section \<open>Python values\<close>

text \<open>
  A Python \<open>str\<close> is modelled as a \<open>string\<close> whose characters are the code points of
  the text, restricted to code points below 256 (every literal of the modelled modules is
  in that range); \<open>length\<close> therefore counts what Python's \<open>len\<close> counts.
  A Python \<open>float\<close> is modelled by its exact real value, with the two infinities and
  NaN as separate values: rounding to the nearest double is not modelled.
\<close>

datatype pyfloat = Fin real | PInf | NInf | NaN

datatype pyval =
    PNone
  | PBool bool
  | PInt int
  | PFloat pyfloat
  | PStr string
  | PList "pyval list"
  | PDict "(string \<times> pyval) list"

type_synonym dict = "(string \<times> pyval) list"

text \<open>Exceptions are values; \<open>ErroExterno\<close> is an exception raised by a library outside
  the repository (API client, transport), carrying its message.\<close>

datatype excecao =
    AttributeError
  | TypeError
  | ValueError
  | OverflowError
  | IndexError
  | ZeroDivisionError
  | JSONDecodeError
  | ErroExterno string

text \<open>\<open>isinstance(e, (ValueError, TypeError))\<close>: \<open>JSONDecodeError\<close> is a subclass of
  \<open>ValueError\<close>.\<close>

definition eh_ValueError_ou_TypeError :: "excecao \<Rightarrow> bool" where
  "eh_ValueError_ou_TypeError e = (e = ValueError \<or> e = TypeError \<or> e = JSONDecodeError)"

definition eh_JSONDecodeError_ou_ValueError :: "excecao \<Rightarrow> bool" where
  "eh_JSONDecodeError_ou_ValueError e = (e = JSONDecodeError \<or> e = ValueError)"

text \<open>Sequencing of computations that may raise.\<close>

definition entao :: "excecao + 'a \<Rightarrow> ('a \<Rightarrow> excecao + 'b) \<Rightarrow> excecao + 'b" where
  "entao m f = (case m of Inl e \<Rightarrow> Inl e | Inr v \<Rightarrow> f v)"

text \<open>\<open>try: m  except <classes>: pass\<close> followed by \<open>return d\<close>.\<close>

definition capturar :: "(excecao \<Rightarrow> bool) \<Rightarrow> excecao + 'a \<Rightarrow> 'a \<Rightarrow> excecao + 'a" where
  "capturar classe m d =
     (case m of Inl e \<Rightarrow> (if classe e then Inr d else Inl e) | Inr v \<Rightarrow> Inr v)"

text \<open>Truth value of an object (\<open>if x:\<close>).\<close>

fun verdadeiro :: "pyval \<Rightarrow> bool" where
  "verdadeiro PNone = False"
| "verdadeiro (PBool b) = b"
| "verdadeiro (PInt i) = (i \<noteq> 0)"
| "verdadeiro (PFloat f) = (f \<noteq> Fin 0)"
| "verdadeiro (PStr s) = (s \<noteq> [])"
| "verdadeiro (PList l) = (l \<noteq> [])"
| "verdadeiro (PDict d) = (d \<noteq> [])"

text \<open>\<open>d.get(k)\<close> and \<open>d.get(k, padrao)\<close> on a dict.\<close>

definition dict_get :: "dict \<Rightarrow> string \<Rightarrow> pyval" where
  "dict_get d k = (case map_of d k of Some v \<Rightarrow> v | None \<Rightarrow> PNone)"

definition dict_get_ou :: "dict \<Rightarrow> string \<Rightarrow> pyval \<Rightarrow> pyval" where
  "dict_get_ou d k padrao = (case map_of d k of Some v \<Rightarrow> v | None \<Rightarrow> padrao)"

text \<open>\<open>x.get(k, padrao)\<close> on an arbitrary object: only a dict has the method.\<close>

fun obj_get :: "pyval \<Rightarrow> string \<Rightarrow> pyval \<Rightarrow> excecao + pyval" where
  "obj_get (PDict d) k padrao = Inr (dict_get_ou d k padrao)"
| "obj_get _ k padrao = Inl AttributeError"

subsection \<open>Character classes and string methods\<close>

text \<open>\<open>str.isspace\<close>, which is also the class \<open>\s\<close> of \<open>re\<close> and what \<open>strip\<close> and
  \<open>split\<close> remove.\<close>

definition py_isspace :: "char \<Rightarrow> bool" where
  "py_isspace c =
     (let n = (of_char c :: nat)
      in (9 \<le> n \<and> n \<le> 13) \<or> (28 \<le> n \<and> n \<le> 32) \<or> n = 133 \<or> n = 160)"

text \<open>The class \<open>\w\<close> of \<open>re\<close> on \<open>str\<close> patterns: alphanumeric or underscore.\<close>

definition py_isword :: "char \<Rightarrow> bool" where
  "py_isword c =
     (let n = (of_char c :: nat)
      in (48 \<le> n \<and> n \<le> 57) \<or> (65 \<le> n \<and> n \<le> 90) \<or> n = 95 \<or> (97 \<le> n \<and> n \<le> 122)
         \<or> n = 170 \<or> n = 178 \<or> n = 179 \<or> n = 181 \<or> n = 185 \<or> n = 186
         \<or> (188 \<le> n \<and> n \<le> 190) \<or> (192 \<le> n \<and> n \<le> 214) \<or> (216 \<le> n \<and> n \<le> 246)
         \<or> (248 \<le> n \<and> n \<le> 255))"

definition py_lower_char :: "char \<Rightarrow> char" where
  "py_lower_char c =
     (let n = (of_char c :: nat)
      in if (65 \<le> n \<and> n \<le> 90) \<or> (192 \<le> n \<and> n \<le> 214) \<or> (216 \<le> n \<and> n \<le> 222)
         then char_of (n + 32) else c)"

definition py_lower :: "string \<Rightarrow> string" where
  "py_lower s = map py_lower_char s"

definition py_strip :: "string \<Rightarrow> string" where
  "py_strip s = rev (dropWhile py_isspace (rev (dropWhile py_isspace s)))"

text \<open>\<open>s.split()\<close>: the maximal runs of non-whitespace characters.\<close>

function py_split :: "string \<Rightarrow> string list" where
  "py_split s =
     (case dropWhile py_isspace s of
        [] \<Rightarrow> []
      | c # cs \<Rightarrow> takeWhile (\<lambda>x. \<not> py_isspace x) (c # cs)
                 # py_split (dropWhile (\<lambda>x. \<not> py_isspace x) cs))"
  by pat_completeness auto
termination
proof (relation "measure length")
  show "wf (measure length)" by simp
next
  fix s :: string and c cs
  assume h: "dropWhile py_isspace s = c # cs"
  have "length (dropWhile (\<lambda>x. \<not> py_isspace x) cs) \<le> length cs"
    by (rule length_dropWhile_le)
  moreover have "length (c # cs) \<le> length s"
    using length_dropWhile_le [of py_isspace s] h by simp
  ultimately show "(dropWhile (\<lambda>x. \<not> py_isspace x) cs, s) \<in> measure length"
    by simp
qed

declare py_split.simps [simp del]

text \<open>\<open>sub in s\<close> for strings.\<close>

fun contem :: "string \<Rightarrow> string \<Rightarrow> bool" where
  "contem sub [] = (sub = [])"
| "contem sub (c # cs) = (take (length sub) (c # cs) = sub \<or> contem sub cs)"

section \<open>Text processing: \<open>busca_semantica.ProcessadorTexto\<close>\<close>

definition STOPWORDS :: "string list" where
  "STOPWORDS =
     [''a'', ''o'', ''e'', ''de'', ''da'', ''do'', ''em'', ''um'', ''uma'', ''para'',
      ''com'', (''n'' @ [CHR 0xE3] @ ''o''), ''que'', ''se'', ''na'', ''no'', ''os'',
      ''as'', ''por'', ''mais'', ''foi'', ''como'', ''mas'', ''ao'', ''ele'', ''das'',
      ''tem'', [CHR 0xE0], ''seu'', ''sua'', ''ou'', ''ser'', ''quando'', ''muito'',
      (''h'' @ [CHR 0xE1]), ''nos'', (''j'' @ [CHR 0xE1]), (''est'' @ [CHR 0xE1]),
      ''eu'', (''tamb'' @ [CHR 0xE9] @ ''m''), (''s'' @ [CHR 0xF3]), ''pelo'',
      ''pela'', (''at'' @ [CHR 0xE9]), ''isso'', ''ela'', ''entre'', ''era'',
      ''depois'', ''sem'', ''mesmo'', ''aos'', ''ter'', ''seus'', ''quem'', ''nas'',
      ''me'', ''esse'', ''eles'', (''est'' @ [CHR 0xE3] @ ''o''),
      (''voc'' @ [CHR 0xEA]), ''tinha'', ''foram'', ''essa'', ''num'', ''nem'',
      ''suas'', ''meu'', ''minha'', (''t'' @ [CHR 0xEA] @ ''m''), ''numa'', ''pelos'',
      ''elas'', ''havia'', ''seja'', ''qual'', (''ser'' @ [CHR 0xE1]),
      (''n'' @ [CHR 0xF3] @ ''s''), ''tenho'', ''lhe'', ''deles'', ''essas'',
      ''esses'', ''pelas'', ''este'', ''fosse'', ''dele'', ''tu'', ''te'',
      (''voc'' @ [CHR 0xEA] @ ''s'')]"

definition SINONIMOS :: "(string \<times> string list) list" where
  "SINONIMOS =
     [(''cancelar'',
       [''cancelamento'', ''desistir'', (''desist'' @ [CHR 0xEA] @ ''ncia''),
        ''anular'']),
      (''reembolso'',
       [''reembolsar'', (''devolu'' @ [CHR 0xE7] @ [CHR 0xE3] @ ''o''), ''devolver'',
        ''estorno'', ''estornar'']),
      (''erro'',
       [''errado'', ''incorreto'', ''falha'', ''problema'', ''defeito'']),
      (''pedido'',
       [''compra'', ''ordem'', ''encomenda'']),
      (''entrega'',
       [''entregar'', ''entregue'', ''chegou'', ''recebido'', ''receber'']),
      (''cobrado'',
       [(''cobran'' @ [CHR 0xE7] @ ''a''), ''cobrar'', ''pago'', ''pagamento'',
        ''valor'']),
      (''atraso'',
       [''atrasado'', ''demorou'', ''demora'', ''lento'']),
      (''fraude'',
       [''fraudulento'', ''suspeito'', ''invadido'', ''hackeado'']),
      (''duplicado'',
       [''duplicada'', ''duas vezes'', ''dobrado'', ''repetido''])]"

text \<open>\<open>re.sub(r'[^\w\s]', ' ', texto)\<close>: every character that is neither a word character
  nor whitespace becomes a blank.\<close>

definition sub_pontuacao :: "string \<Rightarrow> string" where
  "sub_pontuacao s = map (\<lambda>c. if \<not> py_isword c \<and> \<not> py_isspace c then CHR '' '' else c) s"

text \<open>\<open>re.sub(r'\s+', ' ', texto)\<close>: every maximal run of whitespace becomes one blank.\<close>

function sub_espacos :: "string \<Rightarrow> string" where
  "sub_espacos [] = []"
| "sub_espacos (c # cs) =
     (if py_isspace c then CHR '' '' # sub_espacos (dropWhile py_isspace cs)
      else c # sub_espacos cs)"
  by pat_completeness auto
termination
proof (relation "measure length")
  show "wf (measure length)" by simp
next
  fix c :: char and cs :: string
  show "(dropWhile py_isspace cs, c # cs) \<in> measure length"
    using length_dropWhile_le [of py_isspace cs] by simp
next
  fix c :: char and cs :: string
  show "(cs, c # cs) \<in> measure length" by simp
qed

definition normalizar :: "string \<Rightarrow> string" where
  "normalizar texto = py_strip (sub_espacos (sub_pontuacao (py_lower texto)))"

definition tokenizar :: "string \<Rightarrow> bool \<Rightarrow> string list" where
  "tokenizar texto remover_stopwords =
     (let texto_normalizado = normalizar texto;
          tokens = py_split texto_normalizado
      in if remover_stopwords
         then filter (\<lambda>t. t \<notin> set STOPWORDS \<and> length t > 2) tokens
         else tokens)"

text \<open>\<open>expandir_sinonimos\<close> collects the tokens in a \<open>set\<close> and returns \<open>list(set)\<close>:
  the result has no duplicates and its order is not fixed by the language; the model
  lists the elements in one order, and the functions that consume the result only sum
  over it.\<close>

definition expandir_sinonimos :: "string list \<Rightarrow> string list" where
  "expandir_sinonimos tokens =
     remdups (tokens @ concat (map (\<lambda>token.
        (case map_of SINONIMOS token of Some sinonimos \<Rightarrow> sinonimos | None \<Rightarrow> [])
        @ concat (map (\<lambda>(palavra_base, sinonimos).
             if token \<in> set sinonimos then palavra_base # sinonimos else []) SINONIMOS))
        tokens))"

text \<open>Two predicates on normalised text: every whitespace character is a single blank
  that is not followed by whitespace, and the text neither starts nor ends with
  whitespace.\<close>

fun limpo :: "string \<Rightarrow> bool" where
  "limpo [] = True"
| "limpo (c # cs) =
     ((py_isspace c \<longrightarrow> c = CHR '' '' \<and> (cs = [] \<or> \<not> py_isspace (hd cs))) \<and> limpo cs)"

definition sem_borda :: "string \<Rightarrow> bool" where
  "sem_borda s = (s = [] \<or> (\<not> py_isspace (hd s) \<and> \<not> py_isspace (last s)))"


section \<open>Number conversions of the Python runtime\<close>

text \<open>\<open>int(s)\<close> and \<open>float(s)\<close> on a \<open>str\<close> skip this whitespace at both ends (a
  smaller class than \<open>str.isspace\<close>: the separators 28 to 31 are not skipped).\<close>

definition py_isspace_num :: "char \<Rightarrow> bool" where
  "py_isspace_num c =
     (let n = (of_char c :: nat) in (9 \<le> n \<and> n \<le> 13) \<or> n = 32 \<or> n = 133 \<or> n = 160)"

definition strip_num :: "string \<Rightarrow> string" where
  "strip_num s = rev (dropWhile py_isspace_num (rev (dropWhile py_isspace_num s)))"

definition eh_digito :: "char \<Rightarrow> bool" where
  "eh_digito c = (let n = (of_char c :: nat) in 48 \<le> n \<and> n \<le> 57)"

definition valor_digito :: "char \<Rightarrow> nat" where
  "valor_digito c = of_char c - 48"

definition valor_decimal :: "string \<Rightarrow> nat" where
  "valor_decimal ds = foldl (\<lambda>a c. 10 * a + valor_digito c) 0 ds"

text \<open>A digit part: decimal digits, with single underscores allowed between two digits.
  The result is the digits without the underscores.\<close>

definition parte_digitos :: "string \<Rightarrow> string option" where
  "parte_digitos s =
     (if s \<noteq> [] \<and> (\<forall>c \<in> set s. eh_digito c \<or> c = CHR ''_'')
         \<and> eh_digito (hd s) \<and> eh_digito (last s) \<and> \<not> contem ''__'' s
      then Some (filter eh_digito s) else None)"

definition separar_sinal :: "string \<Rightarrow> bool \<times> string" where
  "separar_sinal s =
     (case s of
        [] \<Rightarrow> (False, [])
      | c # cs \<Rightarrow> if c = CHR ''-'' then (True, cs)
                 else if c = CHR ''+'' then (False, cs) else (False, s))"

definition inteiro_com_sinal :: "string \<Rightarrow> int option" where
  "inteiro_com_sinal s =
     (let (negativo, corpo) = separar_sinal s
      in case parte_digitos corpo of
           None \<Rightarrow> None
         | Some ds \<Rightarrow> Some (if negativo then - int (valor_decimal ds)
                            else int (valor_decimal ds)))"

text \<open>\<open>int(s)\<close> for a \<open>str\<close>, base 10. (The limit on the number of digits of recent
  interpreters is not modelled.)\<close>

definition py_int_str :: "string \<Rightarrow> excecao + int" where
  "py_int_str s =
     (case inteiro_com_sinal (strip_num s) of
        None \<Rightarrow> Inl ValueError
      | Some i \<Rightarrow> Inr i)"

text \<open>\<open>int(x)\<close> for an arbitrary object.\<close>

fun py_int :: "pyval \<Rightarrow> excecao + int" where
  "py_int (PInt i) = Inr i"
| "py_int (PBool b) = Inr (if b then 1 else 0)"
| "py_int (PFloat (Fin x)) = Inr (if 0 \<le> x then \<lfloor>x\<rfloor> else \<lceil>x\<rceil>)"
| "py_int (PFloat NaN) = Inl ValueError"
| "py_int (PFloat PInf) = Inl OverflowError"
| "py_int (PFloat NInf) = Inl OverflowError"
| "py_int (PStr s) = py_int_str s"
| "py_int PNone = Inl TypeError"
| "py_int (PList l) = Inl TypeError"
| "py_int (PDict d) = Inl TypeError"

definition escala10 :: "real \<Rightarrow> int \<Rightarrow> real" where
  "escala10 x k = (if 0 \<le> k then x * 10 ^ nat k else x / 10 ^ nat (- k))"

text \<open>\<open>float(s)\<close> for a \<open>str\<close>: an optional sign, then \<open>inf\<close>, \<open>infinity\<close> or \<open>nan\<close> in
  any case, or a decimal numeral with an optional fraction and an optional exponent.\<close>

definition py_float_str :: "string \<Rightarrow> excecao + pyfloat" where
  "py_float_str s =
     (let (negativo, corpo) = separar_sinal (strip_num s);
          nome = py_lower corpo
      in if nome = ''inf'' \<or> nome = ''infinity'' then Inr (if negativo then NInf else PInf)
         else if nome = ''nan'' then Inr NaN
         else
           (let nao_e = (\<lambda>c. c \<noteq> CHR ''e'' \<and> c \<noteq> CHR ''E'');
                mantissa = takeWhile nao_e corpo;
                resto = dropWhile nao_e corpo;
                inteira = takeWhile (\<lambda>c. c \<noteq> CHR ''.'') mantissa;
                resto_m = dropWhile (\<lambda>c. c \<noteq> CHR ''.'') mantissa;
                fracionaria = (if resto_m = [] then [] else tl resto_m);
                d_int = (if inteira = [] then Some [] else parte_digitos inteira);
                d_frac = (if fracionaria = [] then Some [] else parte_digitos fracionaria);
                expoente = (if resto = [] then Some 0 else inteiro_com_sinal (tl resto))
            in case (d_int, d_frac, expoente) of
                 (Some di, Some df, Some e) \<Rightarrow>
                   if di = [] \<and> df = [] then Inl ValueError
                   else Inr (Fin ((if negativo then - 1 else 1)
                          * escala10 (real (valor_decimal (di @ df))) (e - int (length df))))
               | _ \<Rightarrow> Inl ValueError))"

text \<open>\<open>float(x)\<close> for an arbitrary object; an \<open>int\<close> beyond the range of a double
  raises \<open>OverflowError\<close>.\<close>

fun py_float :: "pyval \<Rightarrow> excecao + pyfloat" where
  "py_float (PFloat f) = Inr f"
| "py_float (PInt i) =
     (if \<bar>i\<bar> \<ge> 2 ^ 1024 - 2 ^ 970 then Inl OverflowError else Inr (Fin (real_of_int i)))"
| "py_float (PBool b) = Inr (Fin (if b then 1 else 0))"
| "py_float (PStr s) = py_float_str s"
| "py_float PNone = Inl TypeError"
| "py_float (PList l) = Inl TypeError"
| "py_float (PDict d) = Inl TypeError"


fun pf_gt :: "pyfloat \<Rightarrow> real \<Rightarrow> bool" where
  "pf_gt (Fin x) r = (x > r)"
| "pf_gt PInf r = True"
| "pf_gt NInf r = False"
| "pf_gt NaN r = False"

fun pf_ge :: "pyfloat \<Rightarrow> real \<Rightarrow> bool" where
  "pf_ge (Fin x) r = (x \<ge> r)"
| "pf_ge PInf r = True"
| "pf_ge NInf r = False"
| "pf_ge NaN r = False"

text \<open>\<open>s.replace(velho, novo)\<close> for a non-empty \<open>velho\<close>: the occurrences are replaced
  from left to right without overlap.\<close>

function py_replace :: "string \<Rightarrow> string \<Rightarrow> string \<Rightarrow> string" where
  "py_replace velho novo [] = []"
| "py_replace velho novo (c # cs) =
     (if velho \<noteq> [] \<and> take (length velho) (c # cs) = velho
      then novo @ py_replace velho novo (drop (length velho) (c # cs))
      else c # py_replace velho novo cs)"
  by pat_completeness auto
termination
  by (relation "measure (\<lambda>(velho, novo, s). length s)") auto

text \<open>A method of \<open>str\<close> called on an arbitrary object (\<open>x.replace(...)\<close>, \<open>x.lower()\<close>):
  an object of another type has no such attribute.\<close>

fun como_str :: "pyval \<Rightarrow> excecao + string" where
  "como_str (PStr s) = Inr s"
| "como_str _ = Inl AttributeError"

text \<open>Formatted strings are kept symbolic: a text is the list of its literal pieces and
  of the values interpolated between them, each with its format.\<close>

datatype fragmento =
    Lit string
  | FmtFloat2 pyfloat
  | FmtReal2 real
  | FmtPct0 real
  | FmtInt int
  | FmtNat nat
  | FmtVal pyval
  | FmtJson pyval
  | FmtExc excecao

type_synonym texto = "fragmento list"

section \<open>Policy engine: \<open>motor_politicas.MotorPoliticasExpandido\<close>\<close>

datatype decisao_tipo = APROVAR | REJEITAR | ESCALAR | ANALISE_MANUAL

fun decisao_value :: "decisao_tipo \<Rightarrow> string" where
  "decisao_value APROVAR = ''APROVAR''"
| "decisao_value REJEITAR = ''REJEITAR''"
| "decisao_value ESCALAR = ''ESCALAR''"
| "decisao_value ANALISE_MANUAL = ''ANALISE_MANUAL''"

datatype confianca_nivel = ALTA | MEDIA | BAIXA

fun confianca_value :: "confianca_nivel \<Rightarrow> string" where
  "confianca_value ALTA = ''Alta''"
| "confianca_value MEDIA = (''M'' @ [CHR 0xE9] @ ''dia'')"
| "confianca_value BAIXA = ''Baixa''"

record resultado_politica =
  decisao :: decisao_tipo
  confianca :: confianca_nivel
  codigo_politica :: string
  justificativa :: texto
  pontuacao :: real
  fatores :: dict

definition TEMPO_LIMITE_CANCELAMENTO_GRATUITO :: int where
  "TEMPO_LIMITE_CANCELAMENTO_GRATUITO = 5"

definition TEMPO_ATRASO_SIGNIFICATIVO :: int where
  "TEMPO_ATRASO_SIGNIFICATIVO = 30"

definition TEMPO_ATRASO_CRITICO :: int where
  "TEMPO_ATRASO_CRITICO = 60"

definition VALOR_BAIXO :: real where
  "VALOR_BAIXO = 30"

definition VALOR_MEDIO :: real where
  "VALOR_MEDIO = 100"

definition VALOR_ALTO :: real where
  "VALOR_ALTO = 300"

definition extrair_valor :: "dict \<Rightarrow> excecao + pyfloat option" where
  "extrair_valor contexto =
     capturar eh_ValueError_ou_TypeError
       (entao (obj_get (dict_get_ou contexto ''detalhes_adicionais'' (PDict []))
                 ''valor_pedido'' (PStr ''''))
          (\<lambda>valor_str.
             if verdadeiro valor_str
             then entao (como_str valor_str)
                    (\<lambda>s. entao (py_float_str
                                  (py_strip (py_replace ''R$'' '''' (py_replace '','' ''.'' s))))
                            (\<lambda>v. Inr (Some v)))
             else Inr None))
       None"

definition extrair_tempo_espera :: "dict \<Rightarrow> excecao + int option" where
  "extrair_tempo_espera contexto =
     capturar eh_ValueError_ou_TypeError
       (entao (obj_get (dict_get_ou contexto ''detalhes_adicionais'' (PDict []))
                 ''tempo_espera'' (PStr ''''))
          (\<lambda>tempo_str.
             if verdadeiro tempo_str
             then entao (py_int tempo_str) (\<lambda>t. Inr (Some t))
             else Inr None))
       None"

text \<open>\<open>valor and valor > limite\<close> for an optional float.\<close>

definition valor_acima :: "pyfloat option \<Rightarrow> real \<Rightarrow> bool" where
  "valor_acima valor limite =
     (case valor of None \<Rightarrow> False | Some v \<Rightarrow> v \<noteq> Fin 0 \<and> pf_gt v limite)"

text \<open>\<open>tempo and tempo >= limite\<close> for an optional int.\<close>

definition tempo_ao_menos :: "int option \<Rightarrow> int \<Rightarrow> bool" where
  "tempo_ao_menos tempo limite =
     (case tempo of None \<Rightarrow> False | Some t \<Rightarrow> t \<noteq> 0 \<and> t \<ge> limite)"

definition regra_fraude_detectada :: "dict \<Rightarrow> excecao + resultado_politica option" where
  "regra_fraude_detectada contexto =
     (if dict_get contexto ''categoria'' = PStr ''fraude''
         \<and> dict_get contexto ''motivo'' = PStr ''COMPRA_NAO_RECONHECIDA''
      then Inr (Some \<lparr>decisao = ANALISE_MANUAL, confianca = ALTA,
             codigo_politica = ''FRAUDE_F1'',
             justificativa = [Lit (''Compra n'' @ [CHR 0xE3] @ ''o reconhecida detectada. Encaminhando para equipe antifraude com bloqueio preventivo.'')],
             pontuacao = 0.95,
             fatores = [(''categoria'', PStr ''fraude''),
                        (''acao_imediata'', PStr ''bloqueio_preventivo'')]\<rparr>)
      else Inr None)"

definition regra_conta_comprometida :: "dict \<Rightarrow> excecao + resultado_politica option" where
  "regra_conta_comprometida contexto =
     (if dict_get contexto ''categoria'' = PStr ''fraude''
         \<and> dict_get contexto ''motivo'' = PStr ''CONTA_COMPROMETIDA''
      then Inr (Some \<lparr>decisao = ANALISE_MANUAL, confianca = ALTA,
             codigo_politica = ''FRAUDE_F2'',
             justificativa = [Lit (''Conta possivelmente comprometida. Bloqueio preventivo ativado e encaminhado para equipe de seguran'' @ [CHR 0xE7] @ ''a.'')],
             pontuacao = 0.98,
             fatores = [(''categoria'', PStr ''fraude''), (''urgencia'', PStr ''critica''),
                        (''acao'', PStr ''bloqueio_conta'')]\<rparr>)
      else Inr None)"

definition regra_multiplos_reembolsos_suspeito ::
  "dict \<Rightarrow> excecao + resultado_politica option" where
  "regra_multiplos_reembolsos_suspeito contexto =
     (if dict_get contexto ''motivo'' = PStr ''MULTIPLAS_COBRANCAS''
      then Inr (Some \<lparr>decisao = ANALISE_MANUAL, confianca = MEDIA,
             codigo_politica = ''FRAUDE_F3'',
             justificativa = [Lit (''M'' @ [CHR 0xFA] @ ''ltiplas cobran'' @ [CHR 0xE7] @ ''as detectadas. Requer an'' @ [CHR 0xE1] @ ''lise financeira detalhada.'')],
             pontuacao = 0.75,
             fatores = [(''categoria'', PStr ''fraude''),
                        (''tipo'', PStr ''multiplas_cobrancas'')]\<rparr>)
      else Inr None)"

definition regra_cancelamento_restaurante ::
  "dict \<Rightarrow> excecao + resultado_politica option" where
  "regra_cancelamento_restaurante contexto =
     (if dict_get contexto ''motivo'' = PStr ''CANCELAMENTO_RESTAURANTE''
      then Inr (Some \<lparr>decisao = APROVAR, confianca = ALTA,
             codigo_politica = ''CANCELAMENTO_C1'',
             justificativa = [Lit (''Cancelamento realizado pelo restaurante. Reembolso total autom'' @ [CHR 0xE1] @ ''tico conforme Pol'' @ [CHR 0xED] @ ''tica 2.1.'')],
             pontuacao = 1.0,
             fatores = [(''responsavel'', PStr ''restaurante''),
                        (''reembolso'', PStr ''total'')]\<rparr>)
      else Inr None)"

definition regra_erro_app_comprovado :: "dict \<Rightarrow> excecao + resultado_politica option" where
  "regra_erro_app_comprovado contexto =
     (if dict_get contexto ''motivo'' = PStr ''ERRO_APP''
      then Inr (Some \<lparr>decisao = APROVAR, confianca = ALTA,
             codigo_politica = ''CANCELAMENTO_C2'',
             justificativa = [Lit (''Erro do aplicativo confirmado. Reembolso total autom'' @ [CHR 0xE1] @ ''tico conforme Pol'' @ [CHR 0xED] @ ''tica 2.1.'')],
             pontuacao = 1.0,
             fatores = [(''responsavel'', PStr ''aplicativo''),
                        (''reembolso'', PStr ''total'')]\<rparr>)
      else Inr None)"

definition regra_pedido_nao_confirmado :: "dict \<Rightarrow> excecao + resultado_politica option" where
  "regra_pedido_nao_confirmado contexto =
     (if dict_get contexto ''status'' = PStr ''AGUARDANDO_CONFIRMACAO''
      then (let motivo = dict_get_ou contexto ''motivo'' (PStr '''')
            in if motivo \<in> set [PStr ''ARREPENDIMENTO_CLIENTE'',
                                PStr ''CANCELAMENTO_RESTAURANTE'', PStr ''ERRO_APP'']
               then Inr (Some \<lparr>decisao = APROVAR, confianca = ALTA,
                      codigo_politica = ''CANCELAMENTO_C3'',
                      justificativa = [Lit (''Pedido ainda n'' @ [CHR 0xE3] @ ''o confirmado pelo restaurante. Cancelamento permitido com reembolso total.'')],
                      pontuacao = 1.0,
                      fatores = [(''status'', PStr ''pre_confirmacao''),
                                 (''reembolso'', PStr ''total'')]\<rparr>)
               else Inr None)
      else Inr None)"

definition regra_erro_restaurante :: "dict \<Rightarrow> excecao + resultado_politica option" where
  "regra_erro_restaurante contexto =
     (if dict_get contexto ''motivo'' = PStr ''ERRO_RESTAURANTE''
      then Inr (Some \<lparr>decisao = APROVAR, confianca = ALTA,
             codigo_politica = ''ERRO_E1'',
             justificativa = [Lit (''Erro do restaurante confirmado. Reembolso total aprovado conforme Pol'' @ [CHR 0xED] @ ''tica 2.1.'')],
             pontuacao = 0.95,
             fatores = [(''responsavel'', PStr ''restaurante''),
                        (''tipo_erro'', PStr ''preparo'')]\<rparr>)
      else Inr None)"

definition regra_erro_entregador :: "dict \<Rightarrow> excecao + resultado_politica option" where
  "regra_erro_entregador contexto =
     (if dict_get contexto ''motivo'' = PStr ''ERRO_ENTREGADOR''
      then Inr (Some \<lparr>decisao = APROVAR, confianca = ALTA,
             codigo_politica = ''ERRO_E2'',
             justificativa = [Lit (''Erro do entregador confirmado. Reembolso aprovado conforme Pol'' @ [CHR 0xED] @ ''tica 2.2.'')],
             pontuacao = 0.90,
             fatores = [(''responsavel'', PStr ''entregador''),
                        (''tipo_erro'', PStr ''entrega'')]\<rparr>)
      else Inr None)"

definition regra_pedido_nao_recebido :: "dict \<Rightarrow> excecao + resultado_politica option" where
  "regra_pedido_nao_recebido contexto =
     (if dict_get contexto ''motivo'' = PStr ''NAO_RECEBIDO''
      then entao (extrair_valor contexto)
             (\<lambda>valor.
                if valor_acima valor VALOR_ALTO
                then Inr (Some \<lparr>decisao = ANALISE_MANUAL, confianca = MEDIA,
                       codigo_politica = ''ENTREGA_D1_ALTO_VALOR'',
                       justificativa =
                         [Lit (''Pedido n'' @ [CHR 0xE3] @ ''o recebido com valor alto (R$''),
                          FmtFloat2 (the valor),
                          Lit (''). Requer valida'' @ [CHR 0xE7] @ [CHR 0xE3] @ ''o manual.'')],
                       pontuacao = 0.70,
                       fatores = [(''problema'', PStr ''nao_recebido''),
                                  (''valor'', PFloat (the valor)),
                                  (''analise'', PStr ''manual'')]\<rparr>)
                else Inr (Some \<lparr>decisao = APROVAR, confianca = MEDIA,
                       codigo_politica = ''ENTREGA_D1'',
                       justificativa = [Lit (''Pedido n'' @ [CHR 0xE3] @ ''o recebido. Aprovado para reembolso ap'' @ [CHR 0xF3] @ ''s valida'' @ [CHR 0xE7] @ [CHR 0xE3] @ ''o do status.'')],
                       pontuacao = 0.80,
                       fatores = [(''problema'', PStr ''nao_recebido''),
                                  (''validacao'', PStr ''status_entrega'')]\<rparr>))
      else Inr None)"

definition regra_pedido_incompleto :: "dict \<Rightarrow> excecao + resultado_politica option" where
  "regra_pedido_incompleto contexto =
     (if dict_get contexto ''motivo'' = PStr ''INCOMPLETO''
      then Inr (Some \<lparr>decisao = APROVAR, confianca = MEDIA,
             codigo_politica = ''ENTREGA_D2'',
             justificativa = [Lit ''Pedido incompleto. Reembolso parcial aprovado para itens faltantes.''],
             pontuacao = 0.85,
             fatores = [(''problema'', PStr ''incompleto''),
                        (''reembolso'', PStr ''parcial'')]\<rparr>)
      else Inr None)"

definition regra_cobranca_duplicada :: "dict \<Rightarrow> excecao + resultado_politica option" where
  "regra_cobranca_duplicada contexto =
     (if dict_get contexto ''motivo'' = PStr ''COBRANCA_DUPLICADA''
      then Inr (Some \<lparr>decisao = APROVAR, confianca = ALTA,
             codigo_politica = ''FINANCEIRO_FIN1'',
             justificativa = [Lit (''Cobran'' @ [CHR 0xE7] @ ''a duplicada confirmada. Estorno autom'' @ [CHR 0xE1] @ ''tico da segunda cobran'' @ [CHR 0xE7] @ ''a.'')],
             pontuacao = 0.95,
             fatores = [(''tipo'', PStr ''cobranca_duplicada''),
                        (''acao'', PStr ''estorno_automatico'')]\<rparr>)
      else Inr None)"

definition regra_cobranca_pos_cancelamento ::
  "dict \<Rightarrow> excecao + resultado_politica option" where
  "regra_cobranca_pos_cancelamento contexto =
     (if dict_get contexto ''motivo'' = PStr ''COBRANCA_POS_CANCELAMENTO''
      then Inr (Some \<lparr>decisao = APROVAR, confianca = ALTA,
             codigo_politica = ''FINANCEIRO_FIN2'',
             justificativa = [Lit (''Cobran'' @ [CHR 0xE7] @ ''a indevida ap'' @ [CHR 0xF3] @ ''s cancelamento. Estorno aprovado.'')],
             pontuacao = 0.90,
             fatores = [(''tipo'', PStr ''cobranca_indevida''),
                        (''acao'', PStr ''estorno'')]\<rparr>)
      else Inr None)"

text \<open>In the last branch of the delay rule the factor \<open>tempo_espera\<close> holds \<open>tempo\<close> as it
  is: an int below the threshold, or \<open>None\<close>.\<close>

definition regra_atraso_excessivo :: "dict \<Rightarrow> excecao + resultado_politica option" where
  "regra_atraso_excessivo contexto =
     (if dict_get contexto ''motivo'' = PStr ''ATRASO_ENTREGA''
      then entao (extrair_tempo_espera contexto)
             (\<lambda>tempo.
                if tempo_ao_menos tempo TEMPO_ATRASO_CRITICO
                then Inr (Some \<lparr>decisao = APROVAR, confianca = ALTA,
                       codigo_politica = ''ATRASO_A1_CRITICO'',
                       justificativa =
                         [Lit (''Atraso cr'' @ [CHR 0xED] @ ''tico de ''), FmtInt (the tempo),
                          Lit '' minutos. Reembolso total aprovado.''],
                       pontuacao = 0.95,
                       fatores = [(''tempo_espera'', PInt (the tempo)),
                                  (''nivel'', PStr ''critico'')]\<rparr>)
                else if tempo_ao_menos tempo TEMPO_ATRASO_SIGNIFICATIVO
                then Inr (Some \<lparr>decisao = APROVAR, confianca = MEDIA,
                       codigo_politica = ''ATRASO_A1_SIGNIFICATIVO'',
                       justificativa =
                         [Lit ''Atraso significativo de '', FmtInt (the tempo),
                          Lit ('' minutos. Compensa'' @ [CHR 0xE7] @ [CHR 0xE3] @ ''o aprovada.'')],
                       pontuacao = 0.80,
                       fatores = [(''tempo_espera'', PInt (the tempo)),
                                  (''nivel'', PStr ''significativo''),
                                  (''reembolso'', PStr ''parcial'')]\<rparr>)
                else Inr (Some \<lparr>decisao = ESCALAR, confianca = BAIXA,
                       codigo_politica = ''ATRASO_A1_MODERADO'',
                       justificativa = [Lit (''Atraso reportado. Requer an'' @ [CHR 0xE1] @ ''lise do tempo estimado vs real.'')],
                       pontuacao = 0.50,
                       fatores = [(''tempo_espera'',
                                     (case tempo of None \<Rightarrow> PNone | Some t \<Rightarrow> PInt t)),
                                  (''nivel'', PStr ''moderado'')]\<rparr>))
      else Inr None)"

definition regra_arrependimento_antes_preparo ::
  "dict \<Rightarrow> excecao + resultado_politica option" where
  "regra_arrependimento_antes_preparo contexto =
     (if dict_get contexto ''motivo'' = PStr ''ARREPENDIMENTO_CLIENTE''
      then (if dict_get contexto ''status''
                 \<in> set [PStr ''AGUARDANDO_CONFIRMACAO'', PStr ''EM_PREPARACAO'']
            then Inr (Some \<lparr>decisao = APROVAR, confianca = ALTA,
                   codigo_politica = ''ARREPENDIMENTO_R1'',
                   justificativa = [Lit (''Cancelamento por arrependimento antes da sa'' @ [CHR 0xED] @ ''da para entrega. Reembolso aprovado.'')],
                   pontuacao = 0.90,
                   fatores = [(''motivo'', PStr ''arrependimento''),
                              (''fase'', PStr ''pre_entrega'')]\<rparr>)
            else Inr None)
      else Inr None)"

definition regra_arrependimento_apos_saida ::
  "dict \<Rightarrow> excecao + resultado_politica option" where
  "regra_arrependimento_apos_saida contexto =
     (if dict_get contexto ''motivo'' = PStr ''ARREPENDIMENTO_CLIENTE''
      then (if dict_get contexto ''status''
                 \<in> set [PStr ''SAIU_PARA_ENTREGA'', PStr ''ENTREGUE'']
            then Inr (Some \<lparr>decisao = REJEITAR, confianca = ALTA,
                   codigo_politica = ''ARREPENDIMENTO_R2'',
                   justificativa = [Lit (''Desist'' @ [CHR 0xEA] @ ''ncia ap'' @ [CHR 0xF3] @ ''s sa'' @ [CHR 0xED] @ ''da para entrega n'' @ [CHR 0xE3] @ ''o '' @ [CHR 0xE9] @ '' eleg'' @ [CHR 0xED] @ ''vel para reembolso conforme Pol'' @ [CHR 0xED] @ ''tica 4.1.'')],
                   pontuacao = 0.95,
                   fatores = [(''motivo'', PStr ''arrependimento''),
                              (''fase'', PStr ''pos_saida''),
                              (''elegivel'', PBool False)]\<rparr>)
            else Inr None)
      else Inr None)"

definition regra_valor_alto_analise_manual ::
  "dict \<Rightarrow> excecao + resultado_politica option" where
  "regra_valor_alto_analise_manual contexto =
     entao (extrair_valor contexto)
       (\<lambda>valor.
          if valor_acima valor VALOR_ALTO
          then (if dict_get contexto ''categoria'' \<notin> set [PStr ''fraude'']
                then Inr (Some \<lparr>decisao = ANALISE_MANUAL, confianca = MEDIA,
                       codigo_politica = ''VALOR_V1'',
                       justificativa =
                         [Lit ''Pedido de alto valor (R$'', FmtFloat2 (the valor),
                          Lit ('') requer an'' @ [CHR 0xE1] @ ''lise manual adicional.'')],
                       pontuacao = 0.60,
                       fatores = [(''valor'', PFloat (the valor)),
                                  (''motivo'', PStr ''alto_valor'')]\<rparr>)
                else Inr None)
          else Inr None)"

text \<open>The rules in their order of priority.\<close>

definition regras :: "(dict \<Rightarrow> excecao + resultado_politica option) list" where
  "regras =
     [regra_fraude_detectada,
      regra_conta_comprometida,
      regra_cancelamento_restaurante,
      regra_erro_app_comprovado,
      regra_pedido_nao_confirmado,
      regra_erro_restaurante,
      regra_erro_entregador,
      regra_pedido_nao_recebido,
      regra_pedido_incompleto,
      regra_cobranca_duplicada,
      regra_cobranca_pos_cancelamento,
      regra_atraso_excessivo,
      regra_arrependimento_antes_preparo,
      regra_arrependimento_apos_saida,
      regra_valor_alto_analise_manual,
      regra_multiplos_reembolsos_suspeito]"

text \<open>The loop of \<open>avaliar\<close>: the first rule that returns a result wins; an exception of a
  rule leaves the loop.\<close>

fun executar_regras ::
  "(dict \<Rightarrow> excecao + resultado_politica option) list \<Rightarrow> dict
     \<Rightarrow> excecao + resultado_politica option" where
  "executar_regras [] contexto = Inr None"
| "executar_regras (regra # resto) contexto =
     (case regra contexto of
        Inl e \<Rightarrow> Inl e
      | Inr (Some resultado) \<Rightarrow> Inr (Some resultado)
      | Inr None \<Rightarrow> executar_regras resto contexto)"

record motor_politicas =
  regras_executadas :: "string list"

text \<open>\<open>avaliar\<close> empties \<open>regras_executadas\<close>, then records the code of the rule that
  fired.\<close>

definition avaliar ::
  "motor_politicas \<Rightarrow> dict \<Rightarrow> (excecao + resultado_politica option) \<times> motor_politicas" where
  "avaliar self contexto =
     (let resultado = executar_regras regras contexto
      in (resultado,
          self\<lparr>regras_executadas :=
                 (case resultado of
                    Inr (Some r) \<Rightarrow> [codigo_politica r]
                  | _ \<Rightarrow> [])\<rparr>))"

section \<open>Scoring: \<open>motor_politicas.SistemaScoring\<close>\<close>













section \<open>The input contract of a claim context\<close>








section \<open>TF-IDF index: \<open>busca_semantica.MotorTFIDF\<close>\<close>

text \<open>The elements of a list in the order of their first occurrence: the keys of a
  \<open>Counter\<close> or of a dict filled from the list. A \<open>set\<close> built from the list is modelled by
  the same list, its order being immaterial wherever the source iterates over it.\<close>

definition ordem_insercao :: "'a list \<Rightarrow> 'a list" where
  "ordem_insercao xs = rev (remdups (rev xs))"

definition py_counter :: "string list \<Rightarrow> (string \<times> nat) list" where
  "py_counter tokens = map (\<lambda>t. (t, count_list tokens t)) (ordem_insercao tokens)"

text \<open>\<open>d.get(termo, 0)\<close> on a dict of floats.\<close>

definition peso :: "(string \<times> real) list \<Rightarrow> string \<Rightarrow> real" where
  "peso d termo = (case map_of d termo of Some v \<Rightarrow> v | None \<Rightarrow> 0)"

text \<open>\<open>xs[i]\<close>: a negative index counts from the end.\<close>

definition py_index :: "'a list \<Rightarrow> int \<Rightarrow> excecao + 'a" where
  "py_index xs i =
     (if 0 \<le> i \<and> i < int (length xs) then Inr (xs ! nat i)
      else if i < 0 \<and> - int (length xs) \<le> i then Inr (xs ! nat (int (length xs) + i))
      else Inl IndexError)"


text \<open>\<open>a / b\<close> on floats.\<close>

definition py_truediv :: "real \<Rightarrow> real \<Rightarrow> excecao + real" where
  "py_truediv a b = (if b = 0 then Inl ZeroDivisionError else Inr (a / b))"

record motor_tfidf =
  vocabulario :: "(string \<times> nat) list"
  idf :: "(string \<times> real) list"
  documentos_tfidf :: "(string \<times> real) list list"
  num_documentos :: nat


text \<open>The TF-IDF vector of a list of tokens against the table \<open>idf\<close>: the term frequency
  is the count over the number of tokens (0 for no tokens).\<close>

definition vetor_tfidf :: "(string \<times> real) list \<Rightarrow> string list \<Rightarrow> (string \<times> real) list" where
  "vetor_tfidf tabela_idf tokens =
     map (\<lambda>(termo, freq).
            (termo, (if tokens \<noteq> [] then real freq / real (length tokens) else 0)
                    * peso tabela_idf termo))
         (py_counter tokens)"


definition produto_interno :: "(string \<times> real) list \<Rightarrow> (string \<times> real) list \<Rightarrow> real" where
  "produto_interno q d =
     sum_list (map (\<lambda>termo. peso q termo * peso d termo)
                 (remdups (map fst q @ map fst d)))"

definition norma :: "(string \<times> real) list \<Rightarrow> real" where
  "norma v = sqrt (sum_list (map (\<lambda>x. x ^ 2) (map snd v)))"

definition vetor_consulta :: "motor_tfidf \<Rightarrow> string \<Rightarrow> (string \<times> real) list" where
  "vetor_consulta self consulta =
     vetor_tfidf (idf self) (expandir_sinonimos (tokenizar consulta True))"

definition calcular_similaridade :: "motor_tfidf \<Rightarrow> string \<Rightarrow> int \<Rightarrow> excecao + real" where
  "calcular_similaridade self consulta idx_documento =
     (let tfidf_consulta = vetor_consulta self consulta
      in entao (py_index (documentos_tfidf self) idx_documento)
           (\<lambda>doc_tfidf.
              (let dot_product = produto_interno tfidf_consulta doc_tfidf;
                   norm_consulta = norma tfidf_consulta;
                   norm_doc = norma doc_tfidf
               in if norm_consulta = 0 \<or> norm_doc = 0 then Inr 0
                  else py_truediv dot_product (norm_consulta * norm_doc))))"

text \<open>The cosine of two vectors over a finite set of coordinates, as the specification
  words the similarity.\<close>

definition cosseno :: "(string \<Rightarrow> real) \<Rightarrow> (string \<Rightarrow> real) \<Rightarrow> string set \<Rightarrow> real" where
  "cosseno u v K =
     (\<Sum>t\<in>K. u t * v t) / (sqrt (\<Sum>t\<in>K. (u t) ^ 2) * sqrt (\<Sum>t\<in>K. (v t) ^ 2))"

section \<open>Knowledge base: \<open>busca_semantica.BaseConhecimentoSemantica\<close>\<close>

record item_conhecimento =
  categoria :: string
  pergunta :: string
  resposta :: string
  fonte :: string
  embedding :: "real list"


record base_conhecimento =
  itens :: "item_conhecimento list"
  motor_tfidf :: motor_tfidf











text \<open>A small index state on which the functions above are evaluated: one document with
  the weights 3 and 4.\<close>

definition motor_exemplo :: motor_tfidf where
  "motor_exemplo =
     \<lparr>vocabulario = [(''cancelar'', 0), (''pedido'', 1)],
      idf = [(''cancelar'', 2), (''pedido'', 1)],
      documentos_tfidf = [[(''cancelar'', 3), (''pedido'', 4)]],
      num_documentos = 1\<rparr>"


section \<open>Providers: \<open>backend.integracao_llm\<close>\<close>

datatype provedor_llm = OPENAI | GEMINI | LOCAL

text \<open>A field of a response holds either an object taken from the decoded JSON or a
  string built by the program.\<close>

datatype conteudo = Objeto pyval | Formatado texto

text \<open>The dataclass \<open>RespostaLLM\<close>. The suggested decision and the justification of a
  remote response are whatever the decoded object holds under these keys, and
  \<open>float(...)\<close> may yield an infinity or NaN.\<close>

record resposta_llm =
  texto :: texto
  decisao_sugerida :: pyval
  confianca_llm :: pyfloat
  justificativa_llm :: conteudo
  tokens_usados :: int
  modelo :: string
  sucesso :: bool
  erro :: texto

subsection \<open>Parsing of a remote response\<close>

text \<open>\<open>s.find(c)\<close> and \<open>s.rfind(c)\<close> for a character: the index of the first and of the
  last occurrence, \<open>-1\<close> when there is none.\<close>

fun py_find :: "char \<Rightarrow> string \<Rightarrow> int" where
  "py_find c [] = - 1"
| "py_find c (x # xs) =
     (if x = c then 0 else (let i = py_find c xs in if i = - 1 then - 1 else i + 1))"

definition py_rfind :: "char \<Rightarrow> string \<Rightarrow> int" where
  "py_rfind c s =
     (let i = py_find c (rev s) in if i = - 1 then - 1 else int (length s) - 1 - i)"

text \<open>\<open>json.loads\<close> belongs to the standard library. Its decoder is a parameter of the
  model, except for one case that the scanner decides at once: after the opening brace of
  an object and optional whitespace, anything but a double quote or the closing brace
  raises \<open>JSONDecodeError\<close> (``Expecting property name enclosed in double quotes'').\<close>

definition json_espaco :: "char \<Rightarrow> bool" where
  "json_espaco c = (c = CHR '' '' \<or> c = CHR 0x09 \<or> c = CHR 0x0A \<or> c = CHR 0x0D)"

definition objeto_sem_nome :: "string \<Rightarrow> bool" where
  "objeto_sem_nome s =
     (case s of
        [] \<Rightarrow> False
      | c # resto \<Rightarrow>
          c = CHR ''{'' \<and>
          (case dropWhile json_espaco resto of
             [] \<Rightarrow> True
           | d # _ \<Rightarrow> d \<noteq> CHR 0x22 \<and> d \<noteq> CHR ''}''))"

type_synonym decodificador = "string \<Rightarrow> excecao + pyval"

definition json_loads :: "decodificador \<Rightarrow> string \<Rightarrow> excecao + pyval" where
  "json_loads decodificar s =
     (if objeto_sem_nome s then Inl JSONDecodeError else decodificar s)"

text \<open>The body of the \<open>try\<close> of \<open>_parsear_resposta\<close>, the same in both clients: \<open>None\<close>
  when the text holds no pair of braces, so that control falls through to the
  heuristic.\<close>

definition extrair_json :: "decodificador \<Rightarrow> string \<Rightarrow> excecao + resposta_llm option" where
  "extrair_json decodificar texto_resposta =
     (let inicio = py_find CHR ''{'' texto_resposta;
          fim = py_rfind CHR ''}'' texto_resposta + 1
      in if inicio \<noteq> - 1 \<and> fim > inicio
         then (let json_str = take (nat (fim - inicio)) (drop (nat inicio) texto_resposta)
               in entao (json_loads decodificar json_str) (\<lambda>dados.
                  entao (obj_get dados ''decisao'' (PStr ''ESCALAR'')) (\<lambda>decisao_lida.
                  entao (obj_get dados ''confianca'' (PFloat (Fin 0.5))) (\<lambda>confianca_lida.
                  entao (py_float confianca_lida) (\<lambda>confianca_float.
                  entao (obj_get dados ''justificativa'' (PStr ''Sem justificativa''))
                    (\<lambda>justificativa_lida.
                       Inr (Some \<lparr>texto = [Lit texto_resposta],
                                  decisao_sugerida = decisao_lida,
                                  confianca_llm = confianca_float,
                                  justificativa_llm = Objeto justificativa_lida,
                                  tokens_usados = 0, modelo = '''', sucesso = True,
                                  erro = []\<rparr>)))))))
         else Inr None)"

text \<open>The heuristic fallback of each client, on the keywords found in the text.\<close>

definition heuristica_openai :: "string \<Rightarrow> resposta_llm" where
  "heuristica_openai texto_resposta =
     (let decisao_h =
            (if contem ''aprovar'' (py_lower texto_resposta)
                \<or> contem ''reembolso'' (py_lower texto_resposta) then ''APROVAR''
             else if contem ''rejeitar'' (py_lower texto_resposta)
                \<or> contem (''n'' @ [CHR 0xE3] @ ''o eleg'' @ [CHR 0xED] @ ''vel'') (py_lower texto_resposta)
             then ''REJEITAR''
             else ''ESCALAR'')
      in \<lparr>texto = [Lit texto_resposta], decisao_sugerida = PStr decisao_h,
          confianca_llm = Fin 0.5, justificativa_llm = Objeto (PStr (take 200 texto_resposta)),
          tokens_usados = 0, modelo = '''', sucesso = True, erro = []\<rparr>)"

definition heuristica_gemini :: "string \<Rightarrow> resposta_llm" where
  "heuristica_gemini texto_resposta =
     (let decisao_h =
            (if contem ''aprovar'' (py_lower texto_resposta) then ''APROVAR''
             else if contem ''rejeitar'' (py_lower texto_resposta) then ''REJEITAR''
             else ''ESCALAR'')
      in \<lparr>texto = [Lit texto_resposta], decisao_sugerida = PStr decisao_h,
          confianca_llm = Fin 0.5, justificativa_llm = Objeto (PStr (take 200 texto_resposta)),
          tokens_usados = 0, modelo = '''', sucesso = True, erro = []\<rparr>)"

text \<open>\<open>_parsear_resposta\<close>: \<open>except (json.JSONDecodeError, ValueError)\<close> leads to the
  heuristic, every other exception leaves the method.\<close>

definition parsear_resposta ::
  "(string \<Rightarrow> resposta_llm) \<Rightarrow> decodificador \<Rightarrow> string \<Rightarrow> excecao + resposta_llm" where
  "parsear_resposta heuristica decodificar texto_resposta =
     (case extrair_json decodificar texto_resposta of
        Inr (Some r) \<Rightarrow> Inr r
      | Inr None \<Rightarrow> Inr (heuristica texto_resposta)
      | Inl e \<Rightarrow>
          if eh_JSONDecodeError_ou_ValueError e then Inr (heuristica texto_resposta)
          else Inl e)"

subsection \<open>The remote clients\<close>

text \<open>The response of every failure path of a client.\<close>

definition resposta_indisponivel :: "string \<Rightarrow> resposta_llm" where
  "resposta_indisponivel mensagem =
     \<lparr>texto = [], decisao_sugerida = PStr ''ESCALAR'', confianca_llm = Fin 0,
      justificativa_llm = Formatado [Lit mensagem], tokens_usados = 0, modelo = '''',
      sucesso = False, erro = [Lit (''Cliente n'' @ [CHR 0xE3] @ ''o inicializado'')]\<rparr>"

definition resposta_erro_api :: "excecao \<Rightarrow> resposta_llm" where
  "resposta_erro_api e =
     \<lparr>texto = [], decisao_sugerida = PStr ''ESCALAR'', confianca_llm = Fin 0,
      justificativa_llm = Formatado [Lit ''Erro na API: '', FmtExc e], tokens_usados = 0,
      modelo = '''', sucesso = False, erro = [FmtExc e]\<rparr>"

definition system_prompt :: string where
  "system_prompt =
     (''Voc'' @ [CHR 0xEA] @ '' '' @ [CHR 0xE9] @ '' um agente especializado em an'' @
      [CHR 0xE1] @ ''lise de solicita'' @ [CHR 0xE7] @ [CHR 0xF5] @
      ''es de reembolso do iFood.'' @ [CHR 0x0A] @ ''Seu papel '' @ [CHR 0xE9] @
      '' analisar cada caso e fornecer uma recomenda'' @ [CHR 0xE7] @ [CHR 0xE3] @
      ''o baseada nas pol'' @ [CHR 0xED] @ ''ticas da empresa.'' @ [CHR 0x0A] @
      [CHR 0x0A] @ ''POL'' @ [CHR 0xCD] @ ''TICAS PRINCIPAIS:'' @ [CHR 0x0A] @
      ''1. Cancelamentos antes da confirma'' @ [CHR 0xE7] @ [CHR 0xE3] @
      ''o do restaurante: REEMBOLSO TOTAL'' @ [CHR 0x0A] @
      ''2. Erros do restaurante ou app: REEMBOLSO TOTAL'' @ [CHR 0x0A] @
      ''3. Arrependimento ap'' @ [CHR 0xF3] @ ''s sa'' @ [CHR 0xED] @
      ''da para entrega: N'' @ [CHR 0xC3] @ ''O ELEG'' @ [CHR 0xCD] @ ''VEL'' @
      [CHR 0x0A] @ ''4. Pedido n'' @ [CHR 0xE3] @ ''o recebido: REEMBOLSO ap'' @
      [CHR 0xF3] @ ''s valida'' @ [CHR 0xE7] @ [CHR 0xE3] @ ''o'' @ [CHR 0x0A] @
      ''5. Fraude suspeita: AN'' @ [CHR 0xC1] @ ''LISE MANUAL obrigat'' @ [CHR 0xF3] @
      ''ria'' @ [CHR 0x0A] @ [CHR 0x0A] @ ''Responda SEMPRE no formato JSON:'' @
      [CHR 0x0A] @ ''{'' @ [CHR 0x0A] @ ''    '' @ [CHR 0x22] @ ''decisao'' @ [CHR 0x22] @
      '': '' @ [CHR 0x22] @ ''APROVAR|REJEITAR|ESCALAR'' @ [CHR 0x22] @ '','' @
      [CHR 0x0A] @ ''    '' @ [CHR 0x22] @ ''confianca'' @ [CHR 0x22] @ '': 0.0-1.0,'' @
      [CHR 0x0A] @ ''    '' @ [CHR 0x22] @ ''justificativa'' @ [CHR 0x22] @ '': '' @
      [CHR 0x22] @ ''Explica'' @ [CHR 0xE7] @ [CHR 0xE3] @ ''o clara da decis'' @
      [CHR 0xE3] @ ''o'' @ [CHR 0x22] @ [CHR 0x0A] @ ''}'')"

definition criar_user_prompt :: "string \<Rightarrow> dict \<Rightarrow> texto" where
  "criar_user_prompt prompt contexto =
     [Lit (''Analise a seguinte solicita'' @ [CHR 0xE7] @ [CHR 0xE3] @
            ''o de reembolso:'' @ [CHR 0x0A] @ [CHR 0x0A] @ ''RECLAMA'' @ [CHR 0xC7] @
            [CHR 0xC3] @ ''O DO CLIENTE:'' @ [CHR 0x0A]),
      Lit prompt,
      Lit ([CHR 0x0A] @ [CHR 0x0A] @ ''CONTEXTO DO PEDIDO:'' @ [CHR 0x0A] @
            ''- Categoria: ''),
      FmtVal (dict_get_ou contexto ''categoria'' (PStr ''N/A'')),
      Lit ([CHR 0x0A] @ ''- Status do Pedido: ''),
      FmtVal (dict_get_ou contexto ''status'' (PStr ''N/A'')),
      Lit ([CHR 0x0A] @ ''- Motivo: ''),
      FmtVal (dict_get_ou contexto ''motivo'' (PStr ''N/A'')),
      Lit ([CHR 0x0A] @ ''- Detalhes Adicionais: ''),
      FmtJson (dict_get_ou contexto ''detalhes_adicionais'' (PDict [])),
      Lit ([CHR 0x0A] @ [CHR 0x0A] @ ''POL'' @ [CHR 0xCD] @ ''TICAS RELEVANTES:'' @
            [CHR 0x0A]),
      FmtVal (dict_get_ou contexto ''politicas_relevantes''
               (PStr (''Nenhuma pol'' @ [CHR 0xED] @ ''tica espec'' @ [CHR 0xED] @
                       ''fica encontrada.''))),
      Lit ([CHR 0x0A] @ [CHR 0x0A] @ ''Forne'' @ [CHR 0xE7] @ ''a sua an'' @ [CHR 0xE1] @
            ''lise em formato JSON.'')]"

definition criar_prompt_completo :: "string \<Rightarrow> dict \<Rightarrow> texto" where
  "criar_prompt_completo prompt contexto =
     [Lit (''Voc'' @ [CHR 0xEA] @ '' '' @ [CHR 0xE9] @
            '' um agente especializado em an'' @ [CHR 0xE1] @ ''lise de solicita'' @
            [CHR 0xE7] @ [CHR 0xF5] @ ''es de reembolso do iFood.'' @ [CHR 0x0A] @
            [CHR 0x0A] @ ''POL'' @ [CHR 0xCD] @ ''TICAS PRINCIPAIS:'' @ [CHR 0x0A] @
            ''1. Cancelamentos antes da confirma'' @ [CHR 0xE7] @ [CHR 0xE3] @
            ''o: REEMBOLSO TOTAL'' @ [CHR 0x0A] @
            ''2. Erros do restaurante ou app: REEMBOLSO TOTAL  '' @ [CHR 0x0A] @
            ''3. Arrependimento ap'' @ [CHR 0xF3] @ ''s sa'' @ [CHR 0xED] @
            ''da para entrega: N'' @ [CHR 0xC3] @ ''O ELEG'' @ [CHR 0xCD] @ ''VEL'' @
            [CHR 0x0A] @ ''4. Pedido n'' @ [CHR 0xE3] @ ''o recebido: REEMBOLSO ap'' @
            [CHR 0xF3] @ ''s valida'' @ [CHR 0xE7] @ [CHR 0xE3] @ ''o'' @ [CHR 0x0A] @
            ''5. Fraude suspeita: AN'' @ [CHR 0xC1] @ ''LISE MANUAL obrigat'' @
            [CHR 0xF3] @ ''ria'' @ [CHR 0x0A] @ [CHR 0x0A] @ ''RECLAMA'' @ [CHR 0xC7] @
            [CHR 0xC3] @ ''O DO CLIENTE:'' @ [CHR 0x0A]),
      Lit prompt,
      Lit ([CHR 0x0A] @ [CHR 0x0A] @ ''CONTEXTO DO PEDIDO:'' @ [CHR 0x0A] @
            ''- Categoria: ''),
      FmtVal (dict_get_ou contexto ''categoria'' (PStr ''N/A'')),
      Lit ([CHR 0x0A] @ ''- Status: ''),
      FmtVal (dict_get_ou contexto ''status'' (PStr ''N/A'')),
      Lit ([CHR 0x0A] @ ''- Motivo: ''),
      FmtVal (dict_get_ou contexto ''motivo'' (PStr ''N/A'')),
      Lit ([CHR 0x0A] @ ''- Detalhes: ''),
      FmtJson (dict_get_ou contexto ''detalhes_adicionais'' (PDict [])),
      Lit ([CHR 0x0A] @ [CHR 0x0A] @ ''POL'' @ [CHR 0xCD] @ ''TICAS RELEVANTES:'' @
            [CHR 0x0A]),
      FmtVal (dict_get_ou contexto ''politicas_relevantes''
               (PStr (''Nenhuma pol'' @ [CHR 0xED] @ ''tica espec'' @ [CHR 0xED] @
                       ''fica encontrada.''))),
      Lit ([CHR 0x0A] @ [CHR 0x0A] @ ''Responda em JSON:'' @ [CHR 0x0A] @ ''{'' @
            [CHR 0x22] @ ''decisao'' @ [CHR 0x22] @ '': '' @ [CHR 0x22] @
            ''APROVAR|REJEITAR|ESCALAR'' @ [CHR 0x22] @ '', '' @ [CHR 0x22] @
            ''confianca'' @ [CHR 0x22] @ '': 0.0-1.0, '' @ [CHR 0x22] @ ''justificativa'' @
            [CHR 0x22] @ '': '' @ [CHR 0x22] @ ''...'' @ [CHR 0x22] @ ''}'')]"

text \<open>The attribute \<open>_cliente\<close> is the object of the vendor's library, \<open>None\<close> when the key
  or the library is missing. What the model keeps of it is the exchange: for OpenAI the
  model name and the two prompts go in and the content of the first choice comes out with
  the token count, or an exception is raised by the call or by reading the response
  object; for Gemini the prompt goes in and \<open>response.text\<close> comes out. The content is an
  arbitrary object: anything but a string has no method \<open>find\<close>.\<close>

type_synonym api_openai = "string \<Rightarrow> string \<Rightarrow> texto \<Rightarrow> excecao + (pyval \<times> int)"

type_synonym api_gemini = "texto \<Rightarrow> excecao + pyval"

record cliente_openai =
  modelo_openai :: string
  cliente_openai_api :: "api_openai option"

record cliente_gemini =
  modelo_gemini :: string
  cliente_gemini_api :: "api_gemini option"

definition esta_disponivel_openai :: "cliente_openai \<Rightarrow> bool" where
  "esta_disponivel_openai self = (cliente_openai_api self \<noteq> None)"

definition esta_disponivel_gemini :: "cliente_gemini \<Rightarrow> bool" where
  "esta_disponivel_gemini self = (cliente_gemini_api self \<noteq> None)"

text \<open>\<open>ClienteOpenAI.analisar\<close>: the whole exchange runs inside \<open>try\<close>, and
  \<open>except Exception as e\<close> turns every exception into the error response.\<close>

definition analisar_openai ::
  "decodificador \<Rightarrow> cliente_openai \<Rightarrow> string \<Rightarrow> dict \<Rightarrow> excecao + resposta_llm" where
  "analisar_openai decodificar self prompt contexto =
     (case cliente_openai_api self of
        None \<Rightarrow> Inr (resposta_indisponivel (''API OpenAI n'' @ [CHR 0xE3] @ ''o dispon'' @ [CHR 0xED] @ ''vel''))
      | Some api \<Rightarrow>
          (case entao (api (modelo_openai self) system_prompt (criar_user_prompt prompt contexto))
                  (\<lambda>(conteudo_resposta, total_tokens).
                     entao (como_str conteudo_resposta) (\<lambda>resposta_texto.
                     entao (parsear_resposta heuristica_openai decodificar resposta_texto)
                       (\<lambda>resultado.
                          Inr (resultado\<lparr>tokens_usados := total_tokens,
                                         modelo := modelo_openai self\<rparr>))))
           of Inr resultado \<Rightarrow> Inr resultado
            | Inl e \<Rightarrow> Inr (resposta_erro_api e)))"

definition analisar_gemini ::
  "decodificador \<Rightarrow> cliente_gemini \<Rightarrow> string \<Rightarrow> dict \<Rightarrow> excecao + resposta_llm" where
  "analisar_gemini decodificar self prompt contexto =
     (case cliente_gemini_api self of
        None \<Rightarrow> Inr (resposta_indisponivel (''API Gemini n'' @ [CHR 0xE3] @ ''o dispon'' @ [CHR 0xED] @ ''vel''))
      | Some api \<Rightarrow>
          (case entao (api (criar_prompt_completo prompt contexto))
                  (\<lambda>conteudo_resposta.
                     entao (como_str conteudo_resposta) (\<lambda>resposta_texto.
                     entao (parsear_resposta heuristica_gemini decodificar resposta_texto)
                       (\<lambda>resultado. Inr (resultado\<lparr>modelo := modelo_gemini self\<rparr>))))
           of Inr resultado \<Rightarrow> Inr resultado
            | Inl e \<Rightarrow> Inr (resposta_erro_api e)))"

subsection \<open>The local analyzer\<close>

definition palavras_positivas :: "string list" where
  "palavras_positivas =
     [''erro'', ''errado'', ''incorreto'', ''problema'', ''falha'', ''defeito'',
      ''cancelou'', ''cancelado'', (''n'' @ [CHR 0xE3] @ ''o chegou''),
      (''n'' @ [CHR 0xE3] @ ''o recebi''), ''faltando'', ''duplicado'', ''duplicada'',
      ''fraude'', ''invadido'', ''hackeado'',
      (''cobran'' @ [CHR 0xE7] @ ''a indevida''), ''cobrado errado'', ''atrasado'',
      ''demora'']"

definition palavras_negativas :: "string list" where
  "palavras_negativas =
     [''mudei de ideia'', ''desisti'', (''n'' @ [CHR 0xE3] @ ''o quero mais''),
      ''arrependimento'', (''j'' @ [CHR 0xE1] @ '' comi''),
      (''j'' @ [CHR 0xE1] @ '' recebi''),
      (''entreguei errado o endere'' @ [CHR 0xE7] @ ''o'')]"

text \<open>\<open>AnalisadorLocalAvancado.analisar\<close>. The two counts are taken over sets of distinct
  words.\<close>

definition analisar_local :: "string \<Rightarrow> dict \<Rightarrow> excecao + resposta_llm" where
  "analisar_local prompt contexto =
     (let texto_lower = py_lower prompt;
          score_positivo = length (filter (\<lambda>p. contem p texto_lower) palavras_positivas);
          score_negativo = length (filter (\<lambda>p. contem p texto_lower) palavras_negativas);
          status = dict_get_ou contexto ''status'' (PStr '''');
          motivo = dict_get_ou contexto ''motivo'' (PStr '''');
          categoria_lida = dict_get_ou contexto ''categoria'' (PStr '''')
      in if categoria_lida = PStr ''fraude''
         then Inr \<lparr>texto = [Lit (''An'' @ [CHR 0xE1] @ ''lise local: Caso de fraude identificado'')],
                   decisao_sugerida = PStr ''ESCALAR'', confianca_llm = Fin 0.9,
                   justificativa_llm =
                     Formatado [Lit (''Casos de fraude requerem an'' @ [CHR 0xE1] @
                         ''lise manual especializada.'')],
                   tokens_usados = 0, modelo = ''local_avancado'', sucesso = True, erro = []\<rparr>
         else if motivo \<in> {PStr ''ERRO_RESTAURANTE'', PStr ''ERRO_APP'',
                            PStr ''CANCELAMENTO_RESTAURANTE''}
         then Inr \<lparr>texto = [Lit (''An'' @ [CHR 0xE1] @
                         ''lise local: Erro operacional identificado'')],
                   decisao_sugerida = PStr ''APROVAR'', confianca_llm = Fin 0.85,
                   justificativa_llm =
                     Formatado [Lit ''Erro operacional ('', FmtVal motivo,
                                Lit ('') detectado. Eleg'' @ [CHR 0xED] @
                                   ''vel para reembolso.'')],
                   tokens_usados = 0, modelo = ''local_avancado'', sucesso = True, erro = []\<rparr>
         else if motivo = PStr ''ARREPENDIMENTO_CLIENTE''
                 \<and> status \<in> {PStr ''SAIU_PARA_ENTREGA'', PStr ''ENTREGUE''}
         then Inr \<lparr>texto = [Lit (''An'' @ [CHR 0xE1] @ ''lise local: Arrependimento ap'' @
                         [CHR 0xF3] @ ''s entrega'')],
                   decisao_sugerida = PStr ''REJEITAR'', confianca_llm = Fin 0.9,
                   justificativa_llm =
                     Formatado [Lit (''Arrependimento ap'' @ [CHR 0xF3] @ ''s sa'' @ [CHR 0xED] @
                         ''da para entrega n'' @ [CHR 0xE3] @ ''o '' @ [CHR 0xE9] @
                         '' eleg'' @ [CHR 0xED] @ ''vel.'')],
                   tokens_usados = 0, modelo = ''local_avancado'', sucesso = True, erro = []\<rparr>
         else (let score_final_local =
                     (real score_positivo - real score_negativo)
                       / real (max 1 (score_positivo + score_negativo));
                   decisao_local =
                     (if score_final_local > 0.3 then ''APROVAR''
                      else if score_final_local < - 0.3 then ''REJEITAR'' else ''ESCALAR'');
                   confianca_local =
                     (if score_final_local > 0.3 then 0.6 + score_final_local * 0.2
                      else if score_final_local < - 0.3 then 0.6 + \<bar>score_final_local\<bar> * 0.2
                      else 0.5);
                   justificativa_local =
                     (if score_final_local > 0.3
                      then [Lit (''An'' @ [CHR 0xE1] @ ''lise indica elegibilidade. Score: ''),
                            FmtReal2 score_final_local]
                      else if score_final_local < - 0.3
                      then [Lit (''An'' @ [CHR 0xE1] @ ''lise indica n'' @ [CHR 0xE3] @
                               ''o elegibilidade. Score: ''),
                            FmtReal2 score_final_local]
                      else [Lit (''Caso requer an'' @ [CHR 0xE1] @
                               ''lise humana para decis'' @ [CHR 0xE3] @ ''o.'')])
               in Inr \<lparr>texto = [Lit (''An'' @ [CHR 0xE1] @ ''lise local conclu'' @
                                   [CHR 0xED] @ ''da. Indicadores positivos: ''),
                                 FmtNat score_positivo, Lit '', negativos: '',
                                 FmtNat score_negativo],
                         decisao_sugerida = PStr decisao_local,
                         confianca_llm = Fin (min confianca_local 0.85),
                         justificativa_llm = Formatado justificativa_local,
                         tokens_usados = 0, modelo = ''local_avancado'', sucesso = True,
                         erro = []\<rparr>))"

subsection \<open>The manager: \<open>GerenciadorLLM\<close>\<close>

datatype cliente_llm =
    ClienteOpenAI cliente_openai
  | ClienteGemini cliente_gemini
  | AnalisadorLocalAvancado

fun esta_disponivel :: "cliente_llm \<Rightarrow> bool" where
  "esta_disponivel (ClienteOpenAI c) = esta_disponivel_openai c"
| "esta_disponivel (ClienteGemini c) = esta_disponivel_gemini c"
| "esta_disponivel AnalisadorLocalAvancado = True"

fun analisar_cliente ::
  "decodificador \<Rightarrow> cliente_llm \<Rightarrow> string \<Rightarrow> dict \<Rightarrow> excecao + resposta_llm" where
  "analisar_cliente decodificar (ClienteOpenAI c) prompt contexto =
     analisar_openai decodificar c prompt contexto"
| "analisar_cliente decodificar (ClienteGemini c) prompt contexto =
     analisar_gemini decodificar c prompt contexto"
| "analisar_cliente decodificar AnalisadorLocalAvancado prompt contexto =
     analisar_local prompt contexto"

record gerenciador_llm =
  provedores :: "(provedor_llm \<times> cliente_llm) list"

text \<open>\<open>_inicializar_provedores\<close>, run by the constructor on an empty dict. The two remote
  clients are given as their constructors leave them in the environment of the process
  (API keys, installed libraries).\<close>

definition inicializar_provedores :: "cliente_openai \<Rightarrow> cliente_gemini \<Rightarrow> gerenciador_llm" where
  "inicializar_provedores openai_client gemini_client =
     (let p0 = [];
          p1 = (if esta_disponivel_openai openai_client
                then AList.update OPENAI (ClienteOpenAI openai_client) p0 else p0);
          p2 = (if esta_disponivel_gemini gemini_client
                then AList.update GEMINI (ClienteGemini gemini_client) p1 else p1)
      in \<lparr>provedores = AList.update LOCAL AnalisadorLocalAvancado p2\<rparr>)"

text \<open>The loop of \<open>obter_provedor_ativo\<close> over the order of preference: \<open>None\<close> when it
  ends without returning.\<close>

fun primeiro_disponivel ::
  "(provedor_llm \<times> cliente_llm) list \<Rightarrow> provedor_llm list \<Rightarrow> cliente_llm option" where
  "primeiro_disponivel ps [] = None"
| "primeiro_disponivel ps (provedor # resto) =
     (case map_of ps provedor of
        Some c \<Rightarrow> if esta_disponivel c then Some c else primeiro_disponivel ps resto
      | None \<Rightarrow> primeiro_disponivel ps resto)"

definition obter_provedor_ativo :: "gerenciador_llm \<Rightarrow> cliente_llm option" where
  "obter_provedor_ativo self =
     (case primeiro_disponivel (provedores self) [OPENAI, GEMINI, LOCAL] of
        Some c \<Rightarrow> Some c
      | None \<Rightarrow> map_of (provedores self) LOCAL)"

definition resposta_sem_provedores :: resposta_llm where
  "resposta_sem_provedores =
     \<lparr>texto = [], decisao_sugerida = PStr ''ESCALAR'', confianca_llm = Fin 0,
      justificativa_llm = Formatado [Lit (''Nenhum provedor de an'' @ [CHR 0xE1] @
                                     ''lise dispon'' @ [CHR 0xED] @ ''vel'')],
      tokens_usados = 0, modelo = '''', sucesso = False, erro = [Lit ''Sem provedores'']\<rparr>"

text \<open>\<open>GerenciadorLLM.analisar\<close>: the requested provider when it is registered, else the
  active one.\<close>

definition analisar_gerenciador ::
  "decodificador \<Rightarrow> gerenciador_llm \<Rightarrow> string \<Rightarrow> dict \<Rightarrow> provedor_llm option
     \<Rightarrow> excecao + resposta_llm" where
  "analisar_gerenciador decodificar self prompt contexto provedor =
     (let cliente =
            (case provedor of
               Some p \<Rightarrow>
                 (case map_of (provedores self) p of
                    Some c \<Rightarrow> Some c
                  | None \<Rightarrow> obter_provedor_ativo self)
             | None \<Rightarrow> obter_provedor_ativo self)
      in case cliente of
           None \<Rightarrow> Inr resposta_sem_provedores
         | Some c \<Rightarrow> analisar_cliente decodificar c prompt contexto)"


section \<open>Properties of the text processing\<close>

lemma py_lower_char_idem: "py_lower_char (py_lower_char c) = py_lower_char c"
  by (auto simp add: py_lower_char_def Let_def)

lemma py_lower_char_blank: "py_lower_char (CHR '' '') = CHR '' ''"
  by (simp add: py_lower_char_def)

lemma py_isspace_blank: "py_isspace (CHR '' '')"
  by (simp add: py_isspace_def)

lemma py_isword_blank: "\<not> py_isword (CHR '' '')"
  by (simp add: py_isword_def)

lemma sub_espacos_hd:
  "s \<noteq> [] \<Longrightarrow> \<not> py_isspace (hd s) \<Longrightarrow> sub_espacos s \<noteq> [] \<and> hd (sub_espacos s) = hd s"
  by (cases s) simp_all

lemma limpo_sub_espacos: "limpo (sub_espacos s)"
proof (induction s rule: sub_espacos.induct)
  case 1
  show ?case by simp
next
  case (2 c cs)
  show ?case
  proof (cases "py_isspace c")
    case True
    let ?r = "dropWhile py_isspace cs"
    have "sub_espacos ?r = [] \<or> \<not> py_isspace (hd (sub_espacos ?r))"
    proof (cases "?r = []")
      case True
      then have "sub_espacos ?r = []" by (simp only: sub_espacos.simps)
      then show ?thesis ..
    next
      case False
      then have "\<not> py_isspace (hd ?r)" by (rule hd_dropWhile)
      with False show ?thesis using sub_espacos_hd [of ?r] by simp
    qed
    with True 2 show ?thesis by simp
  next
    case False
    with 2 show ?thesis by simp
  qed
qed

lemma sub_espacos_fixo: "limpo s \<Longrightarrow> sub_espacos s = s"
proof (induction s)
  case Nil
  show ?case by simp
next
  case (Cons c cs)
  show ?case
  proof (cases "py_isspace c")
    case True
    with Cons.prems have c: "c = CHR '' ''" and n: "cs = [] \<or> \<not> py_isspace (hd cs)" by simp_all
    from n have "dropWhile py_isspace cs = cs" by (cases cs) simp_all
    with True c Cons show ?thesis by simp
  next
    case False
    with Cons show ?thesis by simp
  qed
qed

lemma limpo_sufixo: "limpo (xs @ ys) \<Longrightarrow> limpo ys"
  by (induction xs) simp_all

lemma limpo_prefixo: "limpo (xs @ ys) \<Longrightarrow> limpo xs"
proof (induction xs)
  case Nil
  show ?case by simp
next
  case (Cons c xs)
  then show ?case by (cases xs) auto
qed

lemma strip_decomp:
  "\<exists>a b. s = a @ py_strip s @ b"
proof -
  let ?d = "dropWhile py_isspace s"
  have 1: "s = takeWhile py_isspace s @ ?d" by simp
  have "rev (takeWhile py_isspace (rev ?d) @ dropWhile py_isspace (rev ?d)) = rev (rev ?d)"
    by (simp only: takeWhile_dropWhile_id)
  then have "rev (dropWhile py_isspace (rev ?d)) @ rev (takeWhile py_isspace (rev ?d)) = ?d"
    by (simp only: rev_append rev_rev_ident)
  then have 2: "?d = py_strip s @ rev (takeWhile py_isspace (rev ?d))"
    by (simp only: py_strip_def)
  from 1 2 show ?thesis by metis
qed

lemma limpo_strip: "limpo s \<Longrightarrow> limpo (py_strip s)"
proof -
  assume h: "limpo s"
  obtain a b where "s = a @ py_strip s @ b" using strip_decomp by blast
  with h have "limpo (a @ py_strip s @ b)" by simp
  then have "limpo (py_strip s @ b)" by (rule limpo_sufixo)
  then show ?thesis by (rule limpo_prefixo)
qed

lemma set_strip: "set (py_strip s) \<subseteq> set s"
proof -
  obtain a b where h: "s = a @ py_strip s @ b" using strip_decomp by blast
  have "set (py_strip s) \<subseteq> set (a @ py_strip s @ b)" by auto
  with h show ?thesis by simp
qed

lemma last_dropWhile_ne: "dropWhile P xs \<noteq> [] \<Longrightarrow> last (dropWhile P xs) = last xs"
  by (induction xs) (auto split: if_splits)

lemma sem_borda_strip: "sem_borda (py_strip s)"
proof (cases "py_strip s = []")
  case True
  then show ?thesis by (simp add: sem_borda_def)
next
  case False
  let ?d = "dropWhile py_isspace s"
  let ?z = "dropWhile py_isspace (rev ?d)"
  from False have z: "?z \<noteq> []" by (simp add: py_strip_def)
  then have "\<not> py_isspace (hd ?z)" by (rule hd_dropWhile)
  then have l: "\<not> py_isspace (last (py_strip s))"
    using z by (simp add: py_strip_def last_rev)
  have d: "?d \<noteq> []"
  proof
    assume "?d = []"
    then have "?z = []" by (simp only: rev.simps dropWhile.simps)
    with z show False ..
  qed
  then have hd: "\<not> py_isspace (hd ?d)" by (rule hd_dropWhile)
  have "last ?z = last (rev ?d)" using z by (rule last_dropWhile_ne)
  then have "hd (py_strip s) = hd ?d"
    using z d by (simp add: py_strip_def hd_rev last_rev)
  with hd l False show ?thesis by (simp add: sem_borda_def)
qed

lemma strip_fixo: "sem_borda s \<Longrightarrow> py_strip s = s"
proof (cases "s = []")
  case True
  then show ?thesis by (simp add: py_strip_def)
next
  case False
  assume "sem_borda s"
  with False have h: "\<not> py_isspace (hd s)" and l: "\<not> py_isspace (last s)"
    by (simp_all add: sem_borda_def)
  from False h have 1: "dropWhile py_isspace s = s" by (cases s) simp_all
  from False have "rev s \<noteq> []" by simp
  moreover from False l have "\<not> py_isspace (hd (rev s))" by (simp add: hd_rev)
  ultimately have "dropWhile py_isspace (rev s) = rev s" by (cases "rev s") simp_all
  with 1 show ?thesis by (simp add: py_strip_def)
qed

lemma set_sub_espacos: "c \<in> set (sub_espacos s) \<Longrightarrow> c = CHR '' '' \<or> c \<in> set s"
proof (induction s rule: sub_espacos.induct)
  case 1
  then show ?case by simp
next
  case (2 d ds)
  show ?case
  proof (cases "py_isspace d")
    case True
    with 2 show ?thesis by (auto dest: set_dropWhileD)
  next
    case False
    with 2 show ?thesis by auto
  qed
qed

lemma limpo_espaco: "limpo s \<Longrightarrow> c \<in> set s \<Longrightarrow> py_isspace c \<Longrightarrow> c = CHR '' ''"
  by (induction s) auto

lemma normalizar_chars:
  assumes "c \<in> set (normalizar x)"
  shows "py_lower_char c = c \<and> (py_isword c \<or> py_isspace c)"
proof -
  from assms have "c \<in> set (sub_espacos (sub_pontuacao (py_lower x)))"
    using set_strip by (auto simp add: normalizar_def)
  then have "c = CHR '' '' \<or> c \<in> set (sub_pontuacao (py_lower x))"
    by (rule set_sub_espacos)
  then show ?thesis
    by (auto simp add: sub_pontuacao_def py_lower_def py_lower_char_idem
        py_lower_char_blank py_isspace_blank)
qed

lemma normalizar_limpo: "limpo (normalizar x)"
  by (simp add: normalizar_def limpo_strip limpo_sub_espacos)

lemma normalizar_sem_borda: "sem_borda (normalizar x)"
  by (simp add: normalizar_def sem_borda_strip)

lemma normalizar_fixo:
  assumes ch: "\<forall>c\<in>set t. py_lower_char c = c \<and> (py_isword c \<or> py_isspace c)"
    and "limpo t" and "sem_borda t"
  shows "normalizar t = t"
proof -
  from ch have 1: "py_lower t = t" by (simp add: py_lower_def map_idI)
  have 2: "sub_pontuacao t = t"
    unfolding sub_pontuacao_def
  proof (rule map_idI)
    fix c assume "c \<in> set t"
    with ch show "(if \<not> py_isword c \<and> \<not> py_isspace c then CHR '' '' else c) = c" by auto
  qed
  from 1 2 assms(2,3) show ?thesis
    by (simp add: normalizar_def sub_espacos_fixo strip_fixo)
qed

lemma normalizar_idem: "normalizar (normalizar x) = normalizar x"
  by (rule normalizar_fixo) (simp_all add: normalizar_chars normalizar_limpo normalizar_sem_borda)

text \<open>
  Claim C8. Normalisation is idempotent: \<open>normalizar (normalizar x) = normalizar x\<close> for
  every text \<open>x\<close>; and \<open>tokenizar\<close> with stopword removal enabled never returns a token
  of length 2 or less, nor a token of the stopword set.
\<close>

theorem normalizar_idempotente_tokens_filtrados:
  "normalizar (normalizar x) = normalizar x
   \<and> (\<forall>t \<in> set (tokenizar x True). \<not> length t \<le> 2 \<and> t \<notin> set STOPWORDS)"
  by (auto simp add: normalizar_idem tokenizar_def Let_def)

theorem normalizar_idempotente_tokens_filtrados_witness:
  "''cliente'' \<in> set (tokenizar ''O cliente quer cancelar o pedido'' True)
   \<and> \<not> length ''cliente'' \<le> 2 \<and> ''cliente'' \<notin> set STOPWORDS
   \<and> normalizar (normalizar ''O cliente quer cancelar o pedido'')
       = normalizar ''O cliente quer cancelar o pedido''"
proof -
  have m: "''cliente'' \<in> set (tokenizar ''O cliente quer cancelar o pedido'' True)"
    by code_simp
  from normalizar_idempotente_tokens_filtrados [of "''O cliente quer cancelar o pedido''"] m
  show ?thesis by blast
qed

section \<open>Properties of the policy engine and of the scoring\<close>

lemmas regras_defs =
  regra_fraude_detectada_def regra_conta_comprometida_def regra_cancelamento_restaurante_def
  regra_erro_app_comprovado_def regra_pedido_nao_confirmado_def regra_erro_restaurante_def
  regra_erro_entregador_def regra_pedido_nao_recebido_def regra_pedido_incompleto_def
  regra_cobranca_duplicada_def regra_cobranca_pos_cancelamento_def regra_atraso_excessivo_def
  regra_arrependimento_antes_preparo_def regra_arrependimento_apos_saida_def
  regra_valor_alto_analise_manual_def regra_multiplos_reembolsos_suspeito_def

lemma dict_get_ou_str: "dict_get d k = PStr s \<Longrightarrow> dict_get_ou d k padrao = PStr s"
  by (simp add: dict_get_def dict_get_ou_def split: option.splits)

lemma arrependimento_aprovar:
  assumes m: "dict_get contexto ''motivo'' = PStr ''ARREPENDIMENTO_CLIENTE''"
    and s: "dict_get contexto ''status'' = PStr ''AGUARDANDO_CONFIRMACAO''
            \<or> dict_get contexto ''status'' = PStr ''EM_PREPARACAO''"
  shows "\<exists>r. executar_regras regras contexto = Inr (Some r) \<and> decisao r = APROVAR"
  using s dict_get_ou_str [OF m] m by (auto simp add: regras_def regras_defs)

lemma arrependimento_rejeitar:
  assumes m: "dict_get contexto ''motivo'' = PStr ''ARREPENDIMENTO_CLIENTE''"
    and s: "dict_get contexto ''status'' = PStr ''SAIU_PARA_ENTREGA''
            \<or> dict_get contexto ''status'' = PStr ''ENTREGUE''"
  shows "\<exists>r. executar_regras regras contexto = Inr (Some r) \<and> decisao r = REJEITAR"
  using s dict_get_ou_str [OF m] m by (auto simp add: regras_def regras_defs)

text \<open>
  Claim C4. For every context whose reason is \<open>ARREPENDIMENTO_CLIENTE\<close>, \<open>avaliar\<close> returns a
  result with decision \<open>REJEITAR\<close> when the status is \<open>SAIU_PARA_ENTREGA\<close> or \<open>ENTREGUE\<close>, and
  with decision \<open>APROVAR\<close> when the status is \<open>AGUARDANDO_CONFIRMACAO\<close> or \<open>EM_PREPARACAO\<close>,
  whatever the other fields of the context and the state of the engine.
\<close>

theorem arrependimento_decide_por_status:
  assumes "dict_get contexto ''motivo'' = PStr ''ARREPENDIMENTO_CLIENTE''"
  shows "(dict_get contexto ''status'' \<in> {PStr ''SAIU_PARA_ENTREGA'', PStr ''ENTREGUE''}
          \<longrightarrow> (\<exists>r. fst (avaliar self contexto) = Inr (Some r) \<and> decisao r = REJEITAR))
       \<and> (dict_get contexto ''status'' \<in> {PStr ''AGUARDANDO_CONFIRMACAO'', PStr ''EM_PREPARACAO''}
          \<longrightarrow> (\<exists>r. fst (avaliar self contexto) = Inr (Some r) \<and> decisao r = APROVAR))"
  using arrependimento_aprovar [OF assms] arrependimento_rejeitar [OF assms]
  by (simp add: avaliar_def Let_def)






lemma contem_critico: "contem ''CRITICO'' ''ATRASO_A1_CRITICO''"
  by simp

theorem arrependimento_decide_por_status_witness:
  "dict_get [(''motivo'', PStr ''ARREPENDIMENTO_CLIENTE''), (''status'', PStr ''ENTREGUE'')]
      ''motivo'' = PStr ''ARREPENDIMENTO_CLIENTE''
   \<and> dict_get [(''motivo'', PStr ''ARREPENDIMENTO_CLIENTE''), (''status'', PStr ''ENTREGUE'')]
      ''status'' \<in> {PStr ''SAIU_PARA_ENTREGA'', PStr ''ENTREGUE''}
   \<and> (\<exists>r. fst (avaliar \<lparr>regras_executadas = []\<rparr>
            [(''motivo'', PStr ''ARREPENDIMENTO_CLIENTE''), (''status'', PStr ''ENTREGUE'')])
          = Inr (Some r) \<and> decisao r = REJEITAR)
   \<and> dict_get [(''motivo'', PStr ''ARREPENDIMENTO_CLIENTE''), (''status'', PStr ''EM_PREPARACAO'')]
      ''motivo'' = PStr ''ARREPENDIMENTO_CLIENTE''
   \<and> dict_get [(''motivo'', PStr ''ARREPENDIMENTO_CLIENTE''), (''status'', PStr ''EM_PREPARACAO'')]
      ''status'' \<in> {PStr ''AGUARDANDO_CONFIRMACAO'', PStr ''EM_PREPARACAO''}
   \<and> (\<exists>r. fst (avaliar \<lparr>regras_executadas = []\<rparr>
            [(''motivo'', PStr ''ARREPENDIMENTO_CLIENTE''), (''status'', PStr ''EM_PREPARACAO'')])
          = Inr (Some r) \<and> decisao r = APROVAR)"
proof -
  let ?a = "[(''motivo'', PStr ''ARREPENDIMENTO_CLIENTE''), (''status'', PStr ''ENTREGUE'')]"
  let ?b = "[(''motivo'', PStr ''ARREPENDIMENTO_CLIENTE''), (''status'', PStr ''EM_PREPARACAO'')]"
  have ma: "dict_get ?a ''motivo'' = PStr ''ARREPENDIMENTO_CLIENTE''" by (simp add: dict_get_def)
  have sa: "dict_get ?a ''status'' \<in> {PStr ''SAIU_PARA_ENTREGA'', PStr ''ENTREGUE''}"
    by (simp add: dict_get_def)
  have mb: "dict_get ?b ''motivo'' = PStr ''ARREPENDIMENTO_CLIENTE''" by (simp add: dict_get_def)
  have sb: "dict_get ?b ''status'' \<in> {PStr ''AGUARDANDO_CONFIRMACAO'', PStr ''EM_PREPARACAO''}"
    by (simp add: dict_get_def)
  from arrependimento_decide_por_status [OF ma, of "\<lparr>regras_executadas = []\<rparr>"]
       arrependimento_decide_por_status [OF mb, of "\<lparr>regras_executadas = []\<rparr>"]
       ma sa mb sb
  show ?thesis by blast
qed















section \<open>Properties of the retrieval engine\<close>

lemma peso_Cons: "peso ((k, v) # d) t = (if t = k then v else peso d t)"
  by (simp add: peso_def)

lemma peso_fora: "t \<notin> set (map fst d) \<Longrightarrow> peso d t = 0"
  by (induction d) (auto simp add: peso_def)

lemma soma_quadrados_distinct:
  "distinct (map fst d) \<Longrightarrow>
   sum_list (map (\<lambda>x. x ^ 2) (map snd d)) = (\<Sum>t\<in>set (map fst d). (peso d t) ^ 2)"
proof (induction d)
  case Nil
  show ?case by simp
next
  case (Cons p d)
  obtain k v where p: "p = (k, v)" by (cases p)
  from Cons.prems p have nk: "k \<notin> set (map fst d)" and dd: "distinct (map fst d)" by simp_all
  have "(\<Sum>t\<in>set (map fst d). (peso ((k, v) # d) t) ^ 2) = (\<Sum>t\<in>set (map fst d). (peso d t) ^ 2)"
    using nk by (intro sum.cong) (auto simp add: peso_Cons)
  with Cons.IH [OF dd] nk p show ?case
    by (simp add: peso_Cons)
qed

lemma soma_quadrados_sobre:
  assumes "finite K" and "set (map fst d) \<subseteq> K"
  shows "(\<Sum>t\<in>K. (peso d t) ^ 2) = (\<Sum>t\<in>set (map fst d). (peso d t) ^ 2)"
proof (rule sum.mono_neutral_right)
  show "finite K" by fact
  show "set (map fst d) \<subseteq> K" by fact
  show "\<forall>i\<in>K - set (map fst d). (peso d i)\<^sup>2 = 0"
    by (simp add: peso_fora)
qed

lemma norma_distinct:
  assumes "distinct (map fst d)" and "finite K" and "set (map fst d) \<subseteq> K"
  shows "norma d = sqrt (\<Sum>t\<in>K. (peso d t) ^ 2)"
proof -
  have "sum_list (map (\<lambda>x. x ^ 2) (map snd d)) = (\<Sum>t\<in>set (map fst d). (peso d t) ^ 2)"
    using assms(1) by (rule soma_quadrados_distinct)
  also have "\<dots> = (\<Sum>t\<in>K. (peso d t) ^ 2)"
    using assms(2,3) by (rule soma_quadrados_sobre [symmetric])
  finally show ?thesis by (simp only: norma_def)
qed

lemma produto_interno_soma:
  "produto_interno q d = (\<Sum>t\<in>set (map fst q) \<union> set (map fst d). peso q t * peso d t)"
proof -
  have "distinct (remdups (map fst q @ map fst d))" by simp
  then have "sum_list (map (\<lambda>termo. peso q termo * peso d termo) (remdups (map fst q @ map fst d)))
      = (\<Sum>t\<in>set (remdups (map fst q @ map fst d)). peso q t * peso d t)"
    by (rule sum_list_distinct_conv_sum_set)
  then show ?thesis by (simp add: produto_interno_def)
qed

lemma distinct_ordem_insercao: "distinct (ordem_insercao xs)"
  by (simp add: ordem_insercao_def)

lemma set_ordem_insercao: "set (ordem_insercao xs) = set xs"
  by (simp add: ordem_insercao_def)

lemma chaves_vetor_tfidf: "map fst (vetor_tfidf tabela tokens) = ordem_insercao tokens"
  by (simp add: vetor_tfidf_def py_counter_def comp_def)

lemma distinct_vetor_tfidf: "distinct (map fst (vetor_tfidf tabela tokens))"
  by (simp only: chaves_vetor_tfidf distinct_ordem_insercao)

lemma distinct_vetor_consulta: "distinct (map fst (vetor_consulta m consulta))"
  by (simp only: vetor_consulta_def distinct_vetor_tfidf)

lemma py_index_valido:
  "0 \<le> i \<Longrightarrow> i < int (length xs) \<Longrightarrow> py_index xs i = Inr (xs ! nat i)"
  by (simp add: py_index_def Let_def)

lemma calcular_similaridade_valido:
  assumes "0 \<le> idx" and "idx < int (length (documentos_tfidf m))"
  shows "calcular_similaridade m consulta idx =
     (let q = vetor_consulta m consulta; d = documentos_tfidf m ! nat idx
      in Inr (if norma q = 0 \<or> norma d = 0 then 0
              else produto_interno q d / (norma q * norma d)))"
proof -
  have i: "py_index (documentos_tfidf m) idx = Inr (documentos_tfidf m ! nat idx)"
    using assms by (rule py_index_valido)
  show ?thesis
  proof (cases "norma (vetor_consulta m consulta) = 0 \<or> norma (documentos_tfidf m ! nat idx) = 0")
    case True
    then show ?thesis
      unfolding calcular_similaridade_def Let_def entao_def i by auto
  next
    case False
    then have "norma (vetor_consulta m consulta) * norma (documentos_tfidf m ! nat idx) \<noteq> 0"
      by simp
    with False show ?thesis
      unfolding calcular_similaridade_def Let_def entao_def i py_truediv_def by auto
  qed
qed

text \<open>
  Claim C7. For every query and every valid document index, \<open>calcular_similaridade\<close> returns 0
  when the norm of the query vector or of the document vector is zero, and otherwise the
  cosine of the two vectors; it never raises \<open>ZeroDivisionError\<close>. (The document vector is
  a dict: its keys are distinct. Floats are modelled by their exact real values.)
\<close>

theorem similaridade_cosseno_sem_divisao_por_zero:
  assumes "0 \<le> idx" and "idx < int (length (documentos_tfidf m))"
    and "distinct (map fst (documentos_tfidf m ! nat idx))"
  shows "(let q = vetor_consulta m consulta;
              d = documentos_tfidf m ! nat idx;
              K = set (map fst q) \<union> set (map fst d);
              norm_consulta = sqrt (\<Sum>t\<in>K. (peso q t) ^ 2);
              norm_doc = sqrt (\<Sum>t\<in>K. (peso d t) ^ 2)
          in calcular_similaridade m consulta idx =
               Inr (if norm_consulta = 0 \<or> norm_doc = 0 then 0
                    else cosseno (peso q) (peso d) K))
         \<and> calcular_similaridade m consulta idx \<noteq> Inl ZeroDivisionError"
proof -
  let ?q = "vetor_consulta m consulta"
  let ?d = "documentos_tfidf m ! nat idx"
  let ?K = "set (map fst ?q) \<union> set (map fst ?d)"
  have fk: "finite ?K" by simp
  have nq: "norma ?q = sqrt (\<Sum>t\<in>?K. (peso ?q t) ^ 2)"
    by (rule norma_distinct [OF distinct_vetor_consulta fk]) simp
  have nd: "norma ?d = sqrt (\<Sum>t\<in>?K. (peso ?d t) ^ 2)"
    by (rule norma_distinct [OF assms(3) fk]) simp
  have c: "calcular_similaridade m consulta idx =
      Inr (if norma ?q = 0 \<or> norma ?d = 0 then 0
           else produto_interno ?q ?d / (norma ?q * norma ?d))"
    using calcular_similaridade_valido [OF assms(1,2), of consulta] by (simp only: Let_def)
  have "produto_interno ?q ?d / (norma ?q * norma ?d) = cosseno (peso ?q) (peso ?d) ?K"
    by (simp only: cosseno_def produto_interno_soma nq nd)
  with c have "calcular_similaridade m consulta idx =
      Inr (if norma ?q = 0 \<or> norma ?d = 0 then 0 else cosseno (peso ?q) (peso ?d) ?K)"
    by simp
  then have 1: "calcular_similaridade m consulta idx =
      Inr (if sqrt (\<Sum>t\<in>?K. (peso ?q t) ^ 2) = 0 \<or> sqrt (\<Sum>t\<in>?K. (peso ?d t) ^ 2) = 0 then 0
           else cosseno (peso ?q) (peso ?d) ?K)"
    by (simp only: nq nd)
  then have 2: "calcular_similaridade m consulta idx \<noteq> Inl ZeroDivisionError" by simp
  show ?thesis unfolding Let_def using 1 2 by (rule conjI)
qed

lemma tokenizar_cancelar: "tokenizar ''cancelar'' True = [''cancelar'']"
  by code_simp

lemma expandir_cancelar:
  "expandir_sinonimos [''cancelar''] =
     [''cancelar'', ''cancelamento'', ''desistir'', (''desist'' @ [CHR 0xEA] @ ''ncia''), ''anular'']"
  by code_simp

theorem similaridade_cosseno_sem_divisao_por_zero_witness:
  "(0::int) \<le> 0
   \<and> 0 < int (length (documentos_tfidf motor_exemplo))
   \<and> distinct (map fst (documentos_tfidf motor_exemplo ! nat 0))
   \<and> calcular_similaridade motor_exemplo ''cancelar'' 0 = Inr (3 / 5)
   \<and> calcular_similaridade motor_exemplo ''cancelar'' 0 \<noteq> Inl ZeroDivisionError"
proof -
  have a: "(0::int) \<le> 0" by simp
  have b: "0 < int (length (documentos_tfidf motor_exemplo))" by (simp add: motor_exemplo_def)
  have c: "distinct (map fst (documentos_tfidf motor_exemplo ! nat 0))"
    by (simp add: motor_exemplo_def)
  have d: "documentos_tfidf motor_exemplo = [[(''cancelar'', 3), (''pedido'', 4)]]"
    by (simp add: motor_exemplo_def)
  have q: "vetor_consulta motor_exemplo ''cancelar'' =
      [(''cancelar'', 2 / 5), (''cancelamento'', 0), (''desistir'', 0),
       ((''desist'' @ [CHR 0xEA] @ ''ncia''), 0), (''anular'', 0)]"
    by (simp add: vetor_consulta_def tokenizar_cancelar expandir_cancelar vetor_tfidf_def
        py_counter_def ordem_insercao_def peso_def motor_exemplo_def)
  have nq: "norma (vetor_consulta motor_exemplo ''cancelar'') = 2 / 5"
  proof -
    have "norma (vetor_consulta motor_exemplo ''cancelar'') = sqrt ((2 / 5) ^ 2)"
      by (simp add: q norma_def)
    also have "\<dots> = 2 / 5" by (simp only: real_sqrt_abs abs_of_nonneg)
    finally show ?thesis .
  qed
  have nd: "norma [(''cancelar'', 3), (''pedido'', 4 :: real)] = 5"
  proof -
    have "norma [(''cancelar'', 3), (''pedido'', 4 :: real)] = sqrt (5 ^ 2)"
      by (simp add: norma_def)
    also have "\<dots> = 5" by (simp only: real_sqrt_abs abs_of_nonneg)
    finally show ?thesis .
  qed
  have p: "produto_interno (vetor_consulta motor_exemplo ''cancelar'')
             [(''cancelar'', 3), (''pedido'', 4)] = 6 / 5"
    by (simp add: q produto_interno_def peso_def)
  have v: "calcular_similaridade motor_exemplo ''cancelar'' 0 = Inr (3 / 5)"
    by (simp add: calcular_similaridade_def Let_def entao_def py_index_def py_truediv_def d nq nd p)
  from similaridade_cosseno_sem_divisao_por_zero [OF a b c, of "''cancelar''"]
  have "calcular_similaridade motor_exemplo ''cancelar'' 0 \<noteq> Inl ZeroDivisionError" by blast
  with a b c v show ?thesis by blast
qed






subsection \<open>Bounds of the search scores\<close>







































section \<open>Properties of the providers\<close>

subsection \<open>Every client returns\<close>

lemma analisar_openai_retorna:
  "\<exists>r. analisar_openai decodificar self prompt contexto = Inr r"
  by (simp add: analisar_openai_def split: option.splits sum.splits)

lemma analisar_gemini_retorna:
  "\<exists>r. analisar_gemini decodificar self prompt contexto = Inr r"
  by (simp add: analisar_gemini_def split: option.splits sum.splits)

lemma analisar_local_retorna: "\<exists>r. analisar_local prompt contexto = Inr r"
  by (simp add: analisar_local_def Let_def)

lemma analisar_cliente_retorna:
  "\<exists>r. analisar_cliente decodificar c prompt contexto = Inr r"
proof (cases c)
  case (ClienteOpenAI x)
  then show ?thesis using analisar_openai_retorna by simp
next
  case (ClienteGemini x)
  then show ?thesis using analisar_gemini_retorna by simp
next
  case AnalisadorLocalAvancado
  then show ?thesis using analisar_local_retorna by simp
qed

lemma local_registrado:
  "map_of (provedores (inicializar_provedores oc gc)) LOCAL = Some AnalisadorLocalAvancado"
  by (simp add: inicializar_provedores_def Let_def update_conv')

lemma primeiro_disponivel_disponivel:
  "primeiro_disponivel ps ordem = Some c \<Longrightarrow> esta_disponivel c"
  by (induction ordem) (auto split: option.splits if_splits)

lemma primeiro_disponivel_local:
  "map_of ps LOCAL = Some AnalisadorLocalAvancado \<Longrightarrow>
   \<exists>c. primeiro_disponivel ps [OPENAI, GEMINI, LOCAL] = Some c"
  by (simp split: option.splits)

lemma obter_provedor_ativo_existe:
  assumes "map_of (provedores g) LOCAL = Some AnalisadorLocalAvancado"
  shows "\<exists>c. obter_provedor_ativo g = Some c \<and> esta_disponivel c"
proof -
  from assms obtain c where c: "primeiro_disponivel (provedores g) [OPENAI, GEMINI, LOCAL] = Some c"
    using primeiro_disponivel_local by blast
  then have "esta_disponivel c" by (rule primeiro_disponivel_disponivel)
  with c show ?thesis by (simp add: obter_provedor_ativo_def)
qed

lemma analisar_gerenciador_cliente:
  assumes "map_of (provedores g) LOCAL = Some AnalisadorLocalAvancado"
  shows "\<exists>c. analisar_gerenciador decodificar g prompt contexto provedor
              = analisar_cliente decodificar c prompt contexto"
proof -
  from assms obtain c where "obter_provedor_ativo g = Some c"
    using obter_provedor_ativo_existe by blast
  then show ?thesis
    by (auto simp add: analisar_gerenciador_def Let_def split: option.splits)
qed

text \<open>C6. The local analyzer is available in every configuration; the manager built by
  the constructor, whatever the state of the two remote clients, always selects a
  provider, which is available; and every call of its \<open>analisar\<close>, for every prompt,
  context and requested provider, returns a response and raises nothing.\<close>

theorem gerenciador_sempre_tem_provedor:
  "esta_disponivel AnalisadorLocalAvancado
   \<and> (\<exists>c. obter_provedor_ativo (inicializar_provedores openai_client gemini_client) = Some c
          \<and> esta_disponivel c)
   \<and> (\<exists>r. analisar_gerenciador decodificar
             (inicializar_provedores openai_client gemini_client) prompt contexto provedor
           = Inr r)"
proof (intro conjI)
  show "esta_disponivel AnalisadorLocalAvancado" by simp
  show "\<exists>c. obter_provedor_ativo (inicializar_provedores openai_client gemini_client) = Some c
          \<and> esta_disponivel c"
    using local_registrado by (rule obter_provedor_ativo_existe)
  obtain c where
    "analisar_gerenciador decodificar
       (inicializar_provedores openai_client gemini_client) prompt contexto provedor
     = analisar_cliente decodificar c prompt contexto"
    using analisar_gerenciador_cliente [OF local_registrado] by blast
  then show "\<exists>r. analisar_gerenciador decodificar
             (inicializar_provedores openai_client gemini_client) prompt contexto provedor
           = Inr r"
    using analisar_cliente_retorna by simp
qed

theorem gerenciador_sempre_tem_provedor_witness:
  "obter_provedor_ativo (inicializar_provedores \<lparr>modelo_openai = ''gpt-3.5-turbo'', cliente_openai_api = None\<rparr> \<lparr>modelo_gemini = ''gemini-pro'', cliente_gemini_api = None\<rparr>) = Some AnalisadorLocalAvancado
   \<and> (\<exists>r. analisar_gerenciador (\<lambda>s. Inl JSONDecodeError)
             (inicializar_provedores \<lparr>modelo_openai = ''gpt-3.5-turbo'', cliente_openai_api = None\<rparr> \<lparr>modelo_gemini = ''gemini-pro'', cliente_gemini_api = None\<rparr>)
             ''quero reembolso'' [(''categoria'', PStr ''fraude'')] (Some OPENAI) = Inr r
          \<and> decisao_sugerida r = PStr ''ESCALAR'' \<and> modelo r = ''local_avancado'')"
proof -
  let ?g = "inicializar_provedores \<lparr>modelo_openai = ''gpt-3.5-turbo'', cliente_openai_api = None\<rparr> \<lparr>modelo_gemini = ''gemini-pro'', cliente_gemini_api = None\<rparr>"
  have p: "provedores ?g = [(LOCAL, AnalisadorLocalAvancado)]"
    by (simp add: inicializar_provedores_def esta_disponivel_openai_def
        esta_disponivel_gemini_def Let_def)
  have a: "obter_provedor_ativo ?g = Some AnalisadorLocalAvancado"
    by (simp add: obter_provedor_ativo_def p)
  have b: "analisar_gerenciador (\<lambda>s. Inl JSONDecodeError) ?g
             ''quero reembolso'' [(''categoria'', PStr ''fraude'')] (Some OPENAI)
           = analisar_local ''quero reembolso'' [(''categoria'', PStr ''fraude'')]"
    by (simp add: analisar_gerenciador_def p a Let_def)
  have c: "\<exists>r. analisar_local ''quero reembolso'' [(''categoria'', PStr ''fraude'')] = Inr r
          \<and> decisao_sugerida r = PStr ''ESCALAR'' \<and> modelo r = ''local_avancado''"
    by (simp add: analisar_local_def dict_get_ou_def Let_def)
  from gerenciador_sempre_tem_provedor
         [of "\<lparr>modelo_openai = ''gpt-3.5-turbo'', cliente_openai_api = None\<rparr>" "\<lparr>modelo_gemini = ''gemini-pro'', cliente_gemini_api = None\<rparr>" "\<lambda>s. Inl JSONDecodeError" "''quero reembolso''"
             "[(''categoria'', PStr ''fraude'')]" "Some OPENAI"]
       a b c
  show ?thesis by simp
qed

subsection \<open>The failure paths of the remote clients\<close>














lemma contem_aprovar: "contem ''aprovar'' ''{aprovar}''"
  by simp







end
